theory Spec2Isabelle
  imports Main "HOL-Library.AList"
begin

section \<open>Python strings\<close>

text \<open>
  A Python \<open>str\<close> is modelled as a \<open>string\<close> with one \<open>char\<close> per code point, so
  the model covers the texts whose code points are below 256; \<open>length\<close> is Python's
  \<open>len\<close>. The operations below are the \<open>str\<close> methods the program calls.
\<close>

text \<open>\<open>str.isspace\<close> on one code point below 256: the characters \<open>str.strip()\<close> removes.\<close>

definition is_space :: "char \<Rightarrow> bool" where
  "is_space c = (c \<in> set [CHR 0x09, CHR 0x0A, CHR 0x0B, CHR 0x0C, CHR 0x0D,
                           CHR 0x1C, CHR 0x1D, CHR 0x1E, CHR 0x1F, CHR 0x20,
                           CHR 0x85, CHR 0xA0])"

definition lstrip :: "string \<Rightarrow> string" where
  "lstrip s = dropWhile is_space s"

definition rstrip :: "string \<Rightarrow> string" where
  "rstrip s = rev (dropWhile is_space (rev s))"

definition strip :: "string \<Rightarrow> string" where
  "strip s = rstrip (lstrip s)"

text \<open>\<open>str.lower\<close>: the cased code points below 256 and their lower-case partners.\<close>

definition upper_chars :: "char list" where
  "upper_chars = ''ABCDEFGHIJKLMNOPQRSTUVWXYZ'' @
     [CHR 0xC0, CHR 0xC1, CHR 0xC2, CHR 0xC3, CHR 0xC4, CHR 0xC5, CHR 0xC6, CHR 0xC7,
      CHR 0xC8, CHR 0xC9, CHR 0xCA, CHR 0xCB, CHR 0xCC, CHR 0xCD, CHR 0xCE, CHR 0xCF,
      CHR 0xD0, CHR 0xD1, CHR 0xD2, CHR 0xD3, CHR 0xD4, CHR 0xD5, CHR 0xD6,
      CHR 0xD8, CHR 0xD9, CHR 0xDA, CHR 0xDB, CHR 0xDC, CHR 0xDD, CHR 0xDE]"

definition lower_chars :: "char list" where
  "lower_chars = ''abcdefghijklmnopqrstuvwxyz'' @
     [CHR 0xE0, CHR 0xE1, CHR 0xE2, CHR 0xE3, CHR 0xE4, CHR 0xE5, CHR 0xE6, CHR 0xE7,
      CHR 0xE8, CHR 0xE9, CHR 0xEA, CHR 0xEB, CHR 0xEC, CHR 0xED, CHR 0xEE, CHR 0xEF,
      CHR 0xF0, CHR 0xF1, CHR 0xF2, CHR 0xF3, CHR 0xF4, CHR 0xF5, CHR 0xF6,
      CHR 0xF8, CHR 0xF9, CHR 0xFA, CHR 0xFB, CHR 0xFC, CHR 0xFD, CHR 0xFE]"

definition lower_char :: "char \<Rightarrow> char" where
  "lower_char c = (case map_of (zip upper_chars lower_chars) c of Some d \<Rightarrow> d | None \<Rightarrow> c)"

definition lower :: "string \<Rightarrow> string" where
  "lower s = map lower_char s"

text \<open>\<open>s.startswith(p)\<close>, \<open>s.endswith(p)\<close> and the substring test \<open>sub in s\<close>.\<close>

fun startswith :: "string \<Rightarrow> string \<Rightarrow> bool" where
  "startswith s [] = True"
| "startswith [] (p # ps) = False"
| "startswith (c # cs) (p # ps) = (c = p \<and> startswith cs ps)"

definition endswith :: "string \<Rightarrow> string \<Rightarrow> bool" where
  "endswith s p = startswith (rev s) (rev p)"

fun py_in :: "string \<Rightarrow> string \<Rightarrow> bool" where
  "py_in sub [] = (sub = [])"
| "py_in sub (c # cs) = (startswith (c # cs) sub \<or> py_in sub cs)"

text \<open>\<open>any(k in s for k in ks)\<close>.\<close>

definition any_in :: "string list \<Rightarrow> string \<Rightarrow> bool" where
  "any_in ks s = list_ex (\<lambda>k. py_in k s) ks"

text \<open>
  \<open>s.split(c)\<close> for a one-character separator. The result is never the empty list, so
  the last case below does not occur.
\<close>

fun split_on :: "char \<Rightarrow> string \<Rightarrow> string list" where
  "split_on c [] = [[]]"
| "split_on c (x # xs) =
     (if x = c then [] # split_on c xs
      else (case split_on c xs of
              w # ws \<Rightarrow> (x # w) # ws
            | [] \<Rightarrow> [[x]]))"

section \<open>The project document\<close>

text \<open>
  \<open>storage/local_storage.py\<close> keeps one JSON document per project. The fields read by
  the operations modelled here are kept; time stamps and the derived \<open>summary\<close> and
  \<open>technical_specs\<close> of a requirement record are written by the program and read by none
  of these operations. \<open>requirements\<close> is a Python dict, kept as an association list in
  insertion order and updated with \<open>AList.update\<close>, which replaces the value of a key
  that is present and appends a new key at the end.
\<close>

record requirement_record =
  full_response :: string
  user_message :: string
  agent :: string
  has_substance :: bool

record message_data =
  msg_role :: string
  msg_text :: string
  msg_agent :: string

record file_data =
  fd_path :: string
  fd_content :: string
  fd_size :: nat

record project =
  pname :: string
  requirements :: "(string \<times> requirement_record) list"
  messages :: "message_data list"
  generated_files :: "file_data list"
  active_agent :: string

text \<open>\<open>LocalStorage.create_project\<close>: the document of a new project.\<close>

definition create_project :: "string \<Rightarrow> project" where
  "create_project name =
     \<lparr>pname = name, requirements = [], messages = [], generated_files = [],
      active_agent = ''requirements_evolver''\<rparr>"

section \<open>Orchestrator\<close>

text \<open>\<open>Orchestrator.__init__\<close>: the chain of agents.\<close>

definition agent_chain :: "string list" where
  "agent_chain = [''requirements_evolver'', ''ux_architect'', ''ui_designer'',
                  ''frontend_engineer'', ''data_architect'', ''api_designer'', ''devops'']"

subsection \<open>Substance of a reply\<close>

definition technical_indicators :: "(string \<times> string list) list" where
  "technical_indicators =
     [(''frontend_engineer'', [''javascript'', ''framework'', ''component'', ''interaction'']),
      (''data_architect'', [''database'', ''storage'', ''data'', ''schema'']),
      (''api_designer'', [''endpoint'', ''api'', ''rest'', ''backend'']),
      (''devops'', [''deployment'', ''hosting'', ''server'', ''cloud''])]"

text \<open>\<open>technical_indicators.get(agent_name, [])\<close>.\<close>

definition agent_indicators :: "string \<Rightarrow> string list" where
  "agent_indicators agent_name =
     (case map_of technical_indicators agent_name of Some ks \<Rightarrow> ks | None \<Rightarrow> [])"

definition is_pure_question :: "string \<Rightarrow> bool" where
  "is_pure_question response =
     (endswith (strip response) ''?'' \<and> length (strip response) < 80 \<and>
      any_in [''what would'', ''can you'', ''please provide''] (strip (lower response)))"

text \<open>\<open>Orchestrator._has_substantial_content\<close>.\<close>

definition has_substantial_content :: "string \<Rightarrow> string \<Rightarrow> bool" where
  "has_substantial_content response agent_name =
     (if response = [] \<or> length (strip response) < 20 then False
      else if agent_name \<in> set [''requirements_evolver'', ''ux_architect'', ''ui_designer'']
      then length (strip response) \<ge> 30 \<and> \<not> is_pure_question response
      else length (strip response) \<ge> 40 \<and>
           any_in (agent_indicators agent_name) (strip (lower response)))"

subsection \<open>Readiness for generation\<close>

text \<open>
  \<open>Orchestrator._has_minimal_requirements\<close>. The count runs over the values of the
  dict; \<open>has_requirements_evolver\<close> looks the one key up.
\<close>

definition substantial_agents :: "project \<Rightarrow> nat" where
  "substantial_agents project_data =
     length (filter has_substance (map snd (requirements project_data)))"

definition has_requirements_evolver :: "project \<Rightarrow> bool" where
  "has_requirements_evolver project_data =
     (case map_of (requirements project_data) ''requirements_evolver'' of
        Some r \<Rightarrow> has_substance r
      | None \<Rightarrow> False)"

definition has_minimal_requirements :: "project \<Rightarrow> bool" where
  "has_minimal_requirements project_data =
     (substantial_agents project_data \<ge> 2 \<or>
      (has_requirements_evolver project_data \<and> substantial_agents project_data \<ge> 1) \<or>
      substantial_agents project_data \<ge> 3)"

subsection \<open>Recording a reply\<close>

text \<open>\<open>LocalStorage.update_requirements\<close>: \<open>project_data['requirements'][agent_name] = requirements\<close>.\<close>

definition update_requirements :: "project \<Rightarrow> string \<Rightarrow> requirement_record \<Rightarrow> project" where
  "update_requirements project_data agent_name reqs =
     project_data\<lparr>requirements := AList.update agent_name reqs (requirements project_data)\<rparr>"

text \<open>\<open>Orchestrator._extract_requirements_enhanced\<close>: the stored document and the returned flag.\<close>

definition extract_requirements_enhanced ::
  "project \<Rightarrow> string \<Rightarrow> string \<Rightarrow> string \<Rightarrow> project \<times> bool" where
  "extract_requirements_enhanced project_data agent_name response user_msg =
     (let substance = has_substantial_content response agent_name
      in (update_requirements project_data agent_name
            \<lparr>full_response = response, user_message = user_msg, agent = agent_name,
             has_substance = substance\<rparr>,
          substance))"

text \<open>\<open>LocalStorage.set_active_agent\<close> and \<open>LocalStorage.add_message\<close>.\<close>

definition set_active_agent :: "project \<Rightarrow> string \<Rightarrow> project" where
  "set_active_agent project_data agent_name = project_data\<lparr>active_agent := agent_name\<rparr>"

definition add_message :: "project \<Rightarrow> string \<Rightarrow> string \<Rightarrow> project" where
  "add_message project_data role message =
     project_data\<lparr>messages := messages project_data @
        [\<lparr>msg_role = role, msg_text = message, msg_agent = active_agent project_data\<rparr>]\<rparr>"

subsection \<open>Choosing the next agent\<close>

definition approval_keywords :: "string list" where
  "approval_keywords = [''approved'', ''perfect'', ''looks good'', ''proceed'', ''move forward'',
                        ''next phase'', ''next agent'', ''switch to'']"

text \<open>The dict \<open>agent_keywords\<close>, in the order the source declares and iterates it.\<close>

definition agent_keywords :: "(string \<times> string list) list" where
  "agent_keywords =
     [(''ui_designer'', [''change design'', ''change color'', ''ui design'', ''ui'']),
      (''ux_architect'', [''navigate'', ''user flow'', ''ux'', ''experience'', ''usability'',
                          ''interface'']),
      (''data_architect'', [''database'', ''data'', ''store'', ''save'', ''storage'', ''persist'']),
      (''api_designer'', [''api'', ''backend'', ''server'', ''endpoint'', ''rest'', ''json'']),
      (''frontend_engineer'', [''javascript'', ''react'', ''vue'', ''frontend'', ''client'',
                               ''browser'', ''technical'', ''implementation'']),
      (''devops'', [''deploy'', ''host'', ''server'', ''domain'', ''production'', ''cloud''])]"

text \<open>\<open>xs.index(x)\<close> for an \<open>x\<close> that occurs in \<open>xs\<close>.\<close>

fun index_of :: "'a list \<Rightarrow> 'a \<Rightarrow> nat" where
  "index_of [] x = 0"
| "index_of (y # ys) x = (if y = x then 0 else Suc (index_of ys x))"

text \<open>The first entry of the keyword table one of whose keywords occurs in the message.\<close>

definition keyword_match :: "string \<Rightarrow> string option" where
  "keyword_match message_lower =
     map_option fst (find (\<lambda>(agent_name, keywords). any_in keywords message_lower) agent_keywords)"

definition current_has_contributed :: "string \<Rightarrow> project \<Rightarrow> bool" where
  "current_has_contributed current_agent project_data =
     (case map_of (requirements project_data) current_agent of
        Some r \<Rightarrow> has_substance r
      | None \<Rightarrow> False)"

definition message_count :: "string \<Rightarrow> project \<Rightarrow> nat" where
  "message_count current_agent project_data =
     length (filter (\<lambda>m. msg_agent m = current_agent) (messages project_data))"

text \<open>The approval branch: the agent it returns, or \<open>None\<close> when control falls through.\<close>

definition approval_override :: "string \<Rightarrow> string \<Rightarrow> string option" where
  "approval_override current_agent message_lower =
     (if any_in approval_keywords message_lower then
        (if current_agent = ''ui_designer'' then Some ''frontend_engineer''
         else if current_agent = ''requirements_evolver'' then Some ''ux_architect''
         else if current_agent = ''ux_architect'' then Some ''frontend_engineer''
         else None)
      else None)"

text \<open>The progress branch and the final \<open>return current_agent\<close>.\<close>

definition progress_switch :: "string \<Rightarrow> project \<Rightarrow> string" where
  "progress_switch current_agent project_data =
     (if current_agent \<in> set agent_chain then
        (let current_index = index_of agent_chain current_agent
         in if (current_has_contributed current_agent project_data \<or>
                message_count current_agent project_data \<ge> 2) \<and>
               current_index < length agent_chain - 1
            then agent_chain ! (current_index + 1)
            else current_agent)
      else current_agent)"

text \<open>\<open>Orchestrator._determine_next_agent_enhanced\<close>.\<close>

definition determine_next_agent_enhanced :: "string \<Rightarrow> string \<Rightarrow> project \<Rightarrow> string" where
  "determine_next_agent_enhanced current_agent user_msg project_data =
     (let message_lower = lower user_msg
      in case approval_override current_agent message_lower of
           Some a \<Rightarrow> a
         | None \<Rightarrow>
             (case keyword_match message_lower of
                Some a \<Rightarrow> a
              | None \<Rightarrow> progress_switch current_agent project_data))"

subsection \<open>Routing a message\<close>

text \<open>
  \<open>Orchestrator._call_agent_enhanced\<close>. The completion service is outside the program:
  \<open>llm_reply\<close> is what \<open>_call_ollama_enhanced\<close> returns for this call, the generated
  text or, when the call raises, the apology text built from the exception.
\<close>

definition call_agent_enhanced :: "string \<Rightarrow> string \<Rightarrow> string" where
  "call_agent_enhanced agent_name llm_reply =
     (if agent_name \<in> set agent_chain then llm_reply
      else ''I'' @ [CHR 0x27] @ ''m not sure how to help with that. Could you clarify?'')"

record route_result =
  rr_message :: string
  rr_agent :: string
  should_generate :: bool

text \<open>\<open>Orchestrator.route_message\<close>: the stored document afterwards and the returned dict.\<close>

definition route_message :: "project \<Rightarrow> string \<Rightarrow> string \<Rightarrow> project \<times> route_result" where
  "route_message project_data user_msg llm_reply =
     (let current_agent = active_agent project_data;
          next_agent = determine_next_agent_enhanced current_agent user_msg project_data;
          stored = (if next_agent \<noteq> current_agent then set_active_agent project_data next_agent
                    else project_data);
          agent_response = call_agent_enhanced next_agent llm_reply;
          stored' = fst (extract_requirements_enhanced stored next_agent agent_response user_msg)
      in (stored', \<lparr>rr_message = agent_response, rr_agent = next_agent, should_generate = False\<rparr>))"

text \<open>
  What \<open>AIDEServer.handle_user_message\<close> does to the document of an existing project:
  the user's message is stored, the message is routed, the reply is stored.
\<close>

definition user_message_storage :: "project \<Rightarrow> string \<Rightarrow> string \<Rightarrow> project \<times> route_result" where
  "user_message_storage project_data user_msg llm_reply =
     (let (stored, agent_response) =
            route_message (add_message project_data ''user'' user_msg) user_msg llm_reply
      in (add_message stored ''agent'' (rr_message agent_response), agent_response))"

text \<open>A conversation: the turns are pairs of a user message and the service's reply to it.\<close>

definition conversation :: "project \<Rightarrow> (string \<times> string) list \<Rightarrow> project" where
  "conversation project_data turns =
     foldl (\<lambda>p (user_msg, llm_reply). fst (user_message_storage p user_msg llm_reply))
       project_data turns"

subsection \<open>Reading the keyword table\<close>

text \<open>\<open>agent_keywords.get(agent_name, [])\<close>, and the order in which the table lists the agents.\<close>

definition keywords_of :: "string \<Rightarrow> string list" where
  "keywords_of agent_name =
     (case map_of agent_keywords agent_name of Some ks \<Rightarrow> ks | None \<Rightarrow> [])"

definition keyword_order :: "string list" where
  "keyword_order = [''ui_designer'', ''ux_architect'', ''data_architect'', ''api_designer'',
                    ''frontend_engineer'', ''devops'']"

text \<open>The agents other than the current one with a keyword in the message, in chain order.\<close>

definition matching_roles :: "string \<Rightarrow> string \<Rightarrow> string list" where
  "matching_roles current_agent message_lower =
     filter (\<lambda>a. a \<noteq> current_agent \<and> any_in (keywords_of a) message_lower) agent_chain"

text \<open>The agents with a keyword in the message, in the order of the keyword table.\<close>

definition table_matches :: "string \<Rightarrow> string list" where
  "table_matches message_lower =
     filter (\<lambda>a. any_in (keywords_of a) message_lower) keyword_order"

section \<open>Integration agent: planning the file structure\<close>

text \<open>\<open>IntegrationAgent._normalize_file_path\<close>: \<open>path_mapping.get(file_path, file_path)\<close>.\<close>

definition path_mapping :: "(string \<times> string) list" where
  "path_mapping =
     [(''style.css'', ''static/css/style.css''),
      (''app.js'', ''static/js/app.js''),
      (''index.html'', ''templates/index.html''),
      (''scripts.js'', ''static/js/app.js''),
      (''styles.css'', ''static/css/style.css'')]"

definition normalize_file_path :: "string \<Rightarrow> string" where
  "normalize_file_path file_path =
     (case map_of path_mapping file_path of Some p \<Rightarrow> p | None \<Rightarrow> file_path)"

text \<open>\<open>IntegrationAgent._resolve_file_conflicts\<close>.\<close>

definition conflict_groups :: "(string \<times> string list) list" where
  "conflict_groups =
     [(''index.html'', [''index.html'', ''templates/index.html'']),
      (''style.css'', [''style.css'', ''static/css/style.css'', ''styles.css'']),
      (''app.js'', [''app.js'', ''static/js/app.js'', ''scripts.js''])]"

definition preferred :: "string list \<Rightarrow> string list" where
  "preferred conflict_group =
     filter (\<lambda>f. startswith f ''templates/'' \<or> startswith f ''static/'') conflict_group"

text \<open>
  One pass of the loop over \<open>file_list\<close>: \<open>resolved_files\<close> after the path
  \<open>file_path\<close> has been handled.
\<close>

definition resolve_step :: "string list \<Rightarrow> string \<Rightarrow> string list" where
  "resolve_step resolved_files file_path =
     (case find (\<lambda>conflict_group. file_path \<in> set conflict_group) (map snd conflict_groups) of
        Some conflict_group \<Rightarrow>
          (case preferred conflict_group of
             p # _ \<Rightarrow> if p \<notin> set resolved_files then resolved_files @ [p] else resolved_files
           | [] \<Rightarrow> resolved_files)
      | None \<Rightarrow>
          if file_path \<notin> set resolved_files then resolved_files @ [file_path]
          else resolved_files)"

definition resolve_file_conflicts :: "string list \<Rightarrow> string list" where
  "resolve_file_conflicts file_list = foldl resolve_step [] file_list"

text \<open>\<open>IntegrationAgent._extract_file_list_deduplicated\<close>.\<close>

definition valid_extensions :: "string list" where
  "valid_extensions = [''.py'', ''.html'', ''.css'', ''.js'', ''.json'', ''.md'', ''.txt'']"

definition code_patterns :: "string list" where
  "code_patterns = [''from '', ''import '', ''@app'', ''def '', ''class '', ''<!DOCTYPE'',
                    ''// '', ''/*'']"

definition bracket_chars :: "string list" where
  "bracket_chars = [''('', '')'', ''{'', ''}'', ''['', '']'', ''=='', ''='']"

definition bad_chars :: "string list" where
  "bad_chars = [''*'', ''?'', [CHR 0x22], ''<'', ''>'', ''|'']"

definition essential_files :: "string list" where
  "essential_files = [''app.py'', ''requirements.txt'', ''templates/index.html'',
                      ''static/css/style.css'', ''static/js/app.js'']"

text \<open>
  The body of the loop over the lines of the reply: the path the line appends to
  \<open>file_list\<close>, or \<open>None\<close> when the line is skipped.
\<close>

definition path_of_line :: "string \<Rightarrow> string option" where
  "path_of_line raw_line =
     (let line = strip raw_line
      in if line = [] then None
         else if any_in code_patterns line then None
         else if any_in bracket_chars line then None
         else if startswith line ''#'' \<or> py_in ''://'' line \<or> startswith line ''//'' then None
         else
           (let clean_path = strip (hd (split_on (CHR ''['') (hd (split_on (CHR ''#'') line))))
            in if clean_path \<noteq> [] \<and>
                  (any_in valid_extensions clean_path \<or>
                   (py_in ''/'' clean_path \<and> py_in ''.'' (last (split_on (CHR ''/'') clean_path))))
               then
                 (if length clean_path < 100 \<and> \<not> any_in bad_chars clean_path \<and>
                     \<not> endswith clean_path ''/''
                  then Some (normalize_file_path clean_path)
                  else None)
               else None))"

text \<open>The closing loop: every essential file that is missing is appended.\<close>

definition add_essential :: "string list \<Rightarrow> string \<Rightarrow> string list" where
  "add_essential file_list essential =
     (if essential \<notin> set file_list then file_list @ [essential] else file_list)"

definition extract_file_list_deduplicated :: "string \<Rightarrow> string list" where
  "extract_file_list_deduplicated response =
     foldl add_essential
       (resolve_file_conflicts (List.map_filter path_of_line (split_on (CHR 0x0A) (strip response))))
       essential_files"

text \<open>
  \<open>IntegrationAgent.plan_project_structure\<close>. The completion service is outside the
  program: \<open>outcome\<close> is the outcome of the one \<open>ollama.chat\<close> call, \<open>Inr\<close> the text of
  the reply, \<open>Inl\<close> the text of the exception it raised. Everything after the call is
  inside the \<open>try\<close>, whose handler returns the fallback list. Before the \<open>try\<close> the
  prompt is built from the name, the id and the requirement records of the project
  document, which every stored document has.
\<close>

definition plan_project_structure :: "string + string \<Rightarrow> string list" where
  "plan_project_structure outcome =
     (case outcome of
        Inr content \<Rightarrow> extract_file_list_deduplicated content
      | Inl e \<Rightarrow> [''app.py'', ''requirements.txt'', ''templates/index.html'',
                  ''static/css/style.css'', ''static/js/app.js''])"

subsection \<open>Reading the conflict groups\<close>

text \<open>
  The nested path that stands for a path: the preferred member of its conflict group, or
  the path itself when it belongs to no group.
\<close>

definition canonical_path :: "string \<Rightarrow> string" where
  "canonical_path file_path =
     (if file_path \<in> set [''index.html'', ''templates/index.html'']
      then ''templates/index.html''
      else if file_path \<in> set [''style.css'', ''static/css/style.css'', ''styles.css'']
      then ''static/css/style.css''
      else if file_path \<in> set [''app.js'', ''static/js/app.js'', ''scripts.js'']
      then ''static/js/app.js''
      else file_path)"

text \<open>A list without its repetitions, every element at the place of its first occurrence.\<close>

definition first_seen :: "'a list \<Rightarrow> 'a list" where
  "first_seen xs = foldl (\<lambda>seen x. if x \<notin> set seen then seen @ [x] else seen) [] xs"

section \<open>Integration agent: generating one file\<close>

subsection \<open>Extracting the code from a reply\<close>

definition is_ascii_letter :: "char \<Rightarrow> bool" where
  "is_ascii_letter c =
     (c \<in> set (''abcdefghijklmnopqrstuvwxyz'' @ ''ABCDEFGHIJKLMNOPQRSTUVWXYZ''))"

text \<open>The optional \<open>\n\<close> at the end of the first pattern.\<close>

definition drop_newline :: "string \<Rightarrow> string" where
  "drop_newline s = (case s of [] \<Rightarrow> [] | c # cs \<Rightarrow> if c = CHR 0x0A then cs else c # cs)"

text \<open>
  \<open>re.sub(r'```[a-z]*\n?', '', raw_response, flags=re.IGNORECASE)\<close>: from left to
  right, three backquotes, the letters that follow them and one newline after those are
  removed; every quantifier of the pattern is greedy and none can give a character back.
\<close>

function remove_fence_openers :: "string \<Rightarrow> string" where
  "remove_fence_openers s =
     (if startswith s ''```''
      then remove_fence_openers (drop_newline (dropWhile is_ascii_letter (drop 3 s)))
      else (case s of [] \<Rightarrow> [] | c # cs \<Rightarrow> c # remove_fence_openers cs))"
  by pat_completeness auto

termination remove_fence_openers
proof (relation "measure length")
  show "wf (measure length)"
    by simp
next
  fix s :: string
  assume fence: "startswith s ''```''"
  have "startswith t p \<Longrightarrow> length p \<le> length t" for t p
    by (induction t p rule: startswith.induct) auto
  from this [OF fence] have "3 \<le> length s"
    by simp
  moreover have "length (drop_newline t) \<le> length t" for t
    by (simp add: drop_newline_def split: list.splits)
  then have "length (drop_newline (dropWhile is_ascii_letter (drop 3 s))) \<le> length (drop 3 s)"
    by (rule le_trans [OF _ length_dropWhile_le])
  ultimately show "(drop_newline (dropWhile is_ascii_letter (drop 3 s)), s) \<in> measure length"
    by simp
next
  fix s :: string and c cs
  assume "s = c # cs"
  then show "(cs, s) \<in> measure length"
    by simp
qed

text \<open>\<open>re.sub(r'```', '', clean)\<close>.\<close>

function remove_backquotes :: "string \<Rightarrow> string" where
  "remove_backquotes s =
     (if startswith s ''```'' then remove_backquotes (drop 3 s)
      else (case s of [] \<Rightarrow> [] | c # cs \<Rightarrow> c # remove_backquotes cs))"
  by pat_completeness auto

termination remove_backquotes
proof (relation "measure length")
  show "wf (measure length)"
    by simp
next
  fix s :: string
  assume fence: "startswith s ''```''"
  have "startswith t p \<Longrightarrow> length p \<le> length t" for t p
    by (induction t p rule: startswith.induct) auto
  from this [OF fence] have "3 \<le> length s"
    by simp
  then show "(drop 3 s, s) \<in> measure length"
    by simp
next
  fix s :: string and c cs
  assume "s = c # cs"
  then show "(cs, s) \<in> measure length"
    by simp
qed

text \<open>\<open>'\n'.join(lines)\<close>.\<close>

fun join_lines :: "string list \<Rightarrow> string" where
  "join_lines [] = []"
| "join_lines [l] = l"
| "join_lines (l # m # ls) = l @ [CHR 0x0A] @ join_lines (m # ls)"

definition is_explanation :: "string \<Rightarrow> bool" where
  "is_explanation stripped =
     (list_ex (startswith (lower stripped))
        [''this is'', ''here is'', ''the following'', ''sure,'', ''certainly,''] \<and>
      \<not> py_in ''{'' stripped \<and> \<not> py_in ''<'' stripped \<and> \<not> py_in ''import'' stripped)"

text \<open>The loop over the lines: \<open>code_lines\<close>, given \<open>found_code_start\<close>.\<close>

fun code_lines :: "bool \<Rightarrow> string list \<Rightarrow> string list" where
  "code_lines found_code_start [] = []"
| "code_lines found_code_start (line # rest) =
     (let stripped = strip line
      in if stripped = [] then code_lines found_code_start rest
         else if \<not> found_code_start \<and> is_explanation stripped
         then code_lines found_code_start rest
         else line # code_lines True rest)"

text \<open>\<open>IntegrationAgent._extract_pure_code_enhanced\<close>.\<close>

definition extract_pure_code_enhanced :: "string \<Rightarrow> string" where
  "extract_pure_code_enhanced raw_response =
     (if raw_response = [] then []
      else
        (let clean = remove_backquotes (remove_fence_openers raw_response);
             result = strip (join_lines (code_lines False (split_on (CHR 0x0A) clean)))
         in if result = [] \<or> length result < 10 then strip raw_response else result))"

subsection \<open>The advisory validator of the integration agent\<close>

definition ia_is_valid_python_content_trusted :: "string \<Rightarrow> string \<Rightarrow> bool" where
  "ia_is_valid_python_content_trusted content file_path =
     (if file_path = ''app.py'' then
        (py_in ''flask'' (lower content) \<or> py_in ''@app'' content \<or>
         py_in ''render_template'' content \<or>
         (py_in ''flask'' (lower content) \<and> py_in ''import'' content) \<or>
         py_in ''from flask'' content) \<or> length (strip content) > 100
      else if file_path = ''requirements.txt'' then
        any_in [''='', ''>'', ''<'', [CHR 0x0A]] content \<and> length (strip content) > 5
      else
        (py_in ''import '' content \<or> py_in ''def '' content \<or> py_in ''class '' content \<or>
         py_in ''from '' content \<or> py_in ''print('' content \<or> py_in ''return '' content) \<or>
        length (strip content) > 50)"

definition ia_is_valid_html_content_trusted :: "string \<Rightarrow> bool" where
  "ia_is_valid_html_content_trusted content =
     ((py_in ''<!doctype'' (lower content) \<or> py_in ''<html'' (lower content) \<or>
       py_in ''<head'' (lower content) \<or> py_in ''<body'' (lower content) \<or>
       py_in ''<div'' content \<or> py_in ''<p>'' content \<or> py_in ''<h1'' content \<or>
       py_in ''<form'' content) \<and>
      py_in ''<'' content \<and> py_in ''>'' content)"

definition ia_is_valid_css_content_trusted :: "string \<Rightarrow> bool" where
  "ia_is_valid_css_content_trusted content =
     (if content = [] \<or> length (strip content) < 10 then False
      else
        (let clean_content = strip content;
             has_any_css =
               ((py_in ''{'' clean_content \<and> py_in ''}'' clean_content) \<or>
                any_in ['':'', '';'', ''#'', ''.''] clean_content \<or>
                any_in [''color'', ''font'', ''margin'', ''padding'', ''width'', ''height'']
                  (lower clean_content));
             balanced_braces =
               (count_list clean_content (CHR ''{'') = count_list clean_content (CHR ''}''))
         in has_any_css \<or> (balanced_braces \<and> length clean_content > 25)))"

definition ia_is_valid_javascript_content_trusted :: "string \<Rightarrow> bool" where
  "ia_is_valid_javascript_content_trusted content =
     (let content_lower = lower content;
          js_indicators =
            (py_in ''function'' content \<or> py_in ''const '' content \<or> py_in ''let '' content \<or>
             py_in ''document.'' content \<or> py_in ''addeventlistener'' content_lower \<or>
             py_in ''getelementbyid'' content_lower \<or> py_in ''fetch'' content \<or>
             py_in ''api'' content_lower);
          no_frameworks =
            (\<not> any_in [''import react'', ''from react'', ''vue'', ''angular''] content_lower)
      in (js_indicators \<or> length (strip content) > 50) \<and> no_frameworks)"

text \<open>\<open>IntegrationAgent._is_valid_file_content_trusted\<close>.\<close>

definition ia_is_valid_file_content_trusted :: "string \<Rightarrow> string \<Rightarrow> bool" where
  "ia_is_valid_file_content_trusted content file_path =
     (if content = [] \<or> length (strip content) < 15 then False
      else if endswith file_path ''.py'' then ia_is_valid_python_content_trusted content file_path
      else if endswith file_path ''.html'' then ia_is_valid_html_content_trusted content
      else if endswith file_path ''.css'' then ia_is_valid_css_content_trusted content
      else if endswith file_path ''.js'' then ia_is_valid_javascript_content_trusted content
      else if endswith file_path ''.txt'' \<or> endswith file_path ''.md''
      then length (strip content) > 5
      else length (strip content) > 10)"

subsection \<open>The content of one file\<close>

text \<open>What the generator prints, line by line.\<close>

datatype log_line =
  ValidationWarning string
  | GenerationFailed string string
  | BuilderValidationWarning string
  | FileSkipped string

text \<open>
  \<open>IntegrationAgent.generate_file_content_with_context\<close>: the content it returns and
  the lines it prints. \<open>outcome\<close> is the outcome of the \<open>ollama.chat\<close> call for this
  file, \<open>Inr\<close> the text of the reply, \<open>Inl\<close> the text of the exception.
\<close>

definition generate_file_content_with_context ::
  "string \<Rightarrow> string + string \<Rightarrow> string \<times> log_line list" where
  "generate_file_content_with_context file_path outcome =
     (case outcome of
        Inr raw \<Rightarrow>
          (let clean_code = extract_pure_code_enhanced raw
           in if \<not> ia_is_valid_file_content_trusted clean_code file_path
              then (clean_code, [ValidationWarning file_path])
              else (clean_code, []))
      | Inl e \<Rightarrow>
          (''# Error generating '' @ file_path @ ''. Please try again.'' @ [CHR 0x0A] @
             ''# '' @ e,
           [GenerationFailed file_path e]))"

section \<open>Project builder\<close>

subsection \<open>The advisory validator of the project builder\<close>

text \<open>
  The two \<open>re.search\<close> calls of the CSS validator. A match of
  \<open>[a-zA-Z-]+\s*:\s*[^;]+;\<close> at the start of \<open>s\<close>: the name characters, the white
  space and the colon are forced; after the colon \<open>\s*[^;]+\<close> is any non-empty run
  without a semicolon, which a semicolon must follow. A match of
  \<open>[.#][a-zA-Z][^{]*\{\<close> at the start of \<open>s\<close>: the two first characters, then an
  opening brace somewhere after them. \<open>re.search\<close> tries every start position.
\<close>

definition declaration_here :: "string \<Rightarrow> bool" where
  "declaration_here s =
     (takeWhile (\<lambda>c. is_ascii_letter c \<or> c = CHR ''-'') s \<noteq> [] \<and>
      (case dropWhile is_space (dropWhile (\<lambda>c. is_ascii_letter c \<or> c = CHR ''-'') s) of
         [] \<Rightarrow> False
       | c # rest \<Rightarrow>
           c = CHR '':'' \<and> takeWhile (\<lambda>c. c \<noteq> CHR '';'') rest \<noteq> [] \<and>
           dropWhile (\<lambda>c. c \<noteq> CHR '';'') rest \<noteq> []))"

definition selector_here :: "string \<Rightarrow> bool" where
  "selector_here s =
     (case s of
        c1 # c2 # rest \<Rightarrow>
          (c1 = CHR ''.'' \<or> c1 = CHR ''#'') \<and> is_ascii_letter c2 \<and> CHR ''{'' \<in> set rest
      | _ \<Rightarrow> False)"

fun re_search :: "(string \<Rightarrow> bool) \<Rightarrow> string \<Rightarrow> bool" where
  "re_search here [] = here []"
| "re_search here (c # cs) = (here (c # cs) \<or> re_search here cs)"

definition pb_is_valid_python_content_trusted :: "string \<Rightarrow> string \<Rightarrow> bool" where
  "pb_is_valid_python_content_trusted content file_path =
     (if file_path = ''app.py'' then
        (py_in ''flask'' (lower content) \<or> py_in ''@app.route'' content \<or>
         py_in ''render_template'' content \<or> py_in ''from flask'' content \<or>
         py_in ''import flask'' content)
      else if file_path = ''requirements.txt'' then
        length (strip content) > 5 \<and> any_in [''='', ''>'', ''<'', [CHR 0x0A]] content
      else
        (py_in ''import '' content \<or> py_in ''def '' content \<or> py_in ''class '' content \<or>
         py_in ''from '' content \<or> py_in ''print('' content \<or> py_in ''return '' content) \<or>
        length (strip content) > 50)"

definition pb_is_valid_html_content_trusted :: "string \<Rightarrow> bool" where
  "pb_is_valid_html_content_trusted content =
     ((py_in ''<!doctype'' (lower content) \<or> py_in ''<html'' (lower content) \<or>
       py_in ''<head'' (lower content) \<or> py_in ''<body'' (lower content) \<or>
       py_in ''<div'' content \<or> py_in ''<p>'' content \<or> py_in ''<h1'' content) \<and>
      py_in ''<'' content \<and> py_in ''>'' content)"

definition pb_is_valid_css_content_trusted :: "string \<Rightarrow> bool" where
  "pb_is_valid_css_content_trusted content =
     (if content = [] \<or> length (strip content) < 10 then False
      else
        (let clean_content = strip content;
             has_any_css =
               ((py_in ''{'' clean_content \<and> py_in ''}'' clean_content) \<or>
                any_in ['':'', '';'', ''#'', ''.''] clean_content \<or>
                any_in [''color'', ''font'', ''margin'', ''padding'', ''width'', ''height'']
                  (lower clean_content) \<or>
                re_search declaration_here clean_content \<or>
                re_search selector_here clean_content);
             balanced_braces =
               (count_list clean_content (CHR ''{'') = count_list clean_content (CHR ''}''))
         in has_any_css \<or> (balanced_braces \<and> length clean_content > 20)))"

definition pb_is_valid_javascript_content_trusted :: "string \<Rightarrow> bool" where
  "pb_is_valid_javascript_content_trusted content =
     (let content_lower = lower content;
          js_indicators =
            (py_in ''function'' content \<or> py_in ''const '' content \<or> py_in ''let '' content \<or>
             py_in ''document.'' content \<or> py_in ''addeventlistener'' content_lower \<or>
             py_in ''getelementbyid'' content_lower \<or> py_in ''queryselector'' content_lower);
          no_frameworks =
            (\<not> any_in [''import react'', ''from react'', ''vue'', ''angular''] content_lower)
      in (js_indicators \<or> length (strip content) > 50) \<and> no_frameworks)"

text \<open>\<open>ProjectBuilder._is_valid_generated_content_trusted\<close>.\<close>

definition pb_is_valid_generated_content_trusted :: "string \<Rightarrow> string \<Rightarrow> bool" where
  "pb_is_valid_generated_content_trusted content file_path =
     (if content = [] \<or> length (strip content) < 5 then False
      else if endswith file_path ''.py'' then pb_is_valid_python_content_trusted content file_path
      else if endswith file_path ''.html'' then pb_is_valid_html_content_trusted content
      else if endswith file_path ''.css'' then pb_is_valid_css_content_trusted content
      else if endswith file_path ''.js'' then pb_is_valid_javascript_content_trusted content
      else if endswith file_path ''.txt'' \<or> endswith file_path ''.md''
      then length (strip content) > 3
      else length (strip content) > 5)"

subsection \<open>Generating the files\<close>

text \<open>
  The record \<open>generate_project\<close> builds for a file. The \<open>icon\<close> of the source is a
  character outside the code points modelled here and is left out.
\<close>

record generated_file =
  gf_path :: string
  gf_content :: string
  gf_size :: nat
  gf_type :: string
  gf_language :: string

text \<open>\<open>file_path.split('.')[-1].lower()\<close>, \<open>_get_file_type\<close> and \<open>_get_file_language\<close>.\<close>

definition file_ext :: "string \<Rightarrow> string" where
  "file_ext file_path = lower (last (split_on (CHR ''.'') file_path))"

definition get_file_type :: "string \<Rightarrow> string" where
  "get_file_type file_path =
     (case map_of [(''py'', ''python''), (''html'', ''html''), (''css'', ''stylesheet''),
                   (''js'', ''javascript''), (''json'', ''json''), (''md'', ''markdown''),
                   (''txt'', ''text'')] (file_ext file_path) of
        Some t \<Rightarrow> t
      | None \<Rightarrow> ''text'')"

definition get_file_language :: "string \<Rightarrow> string" where
  "get_file_language file_path =
     (case map_of [(''py'', ''python''), (''html'', ''html''), (''css'', ''css''),
                   (''js'', ''javascript''), (''json'', ''json''), (''md'', ''markdown'')]
        (file_ext file_path) of
        Some l \<Rightarrow> l
      | None \<Rightarrow> ''text'')"

text \<open>
  What lies outside the program during one run of \<open>generate_project\<close>:
  \<^item> \<open>clean_ok\<close>: \<open>_clean_project_directory\<close> and the \<open>mkdir\<close> after it succeed
    (when the last of the three attempts fails the exception leaves \<open>generate_project\<close>);
  \<^item> \<open>plan_outcome\<close>: the outcome of the completion call of the structure planner;
  \<^item> \<open>file_outcome\<close>: the outcome of the completion call for a file, given the path and
    the context of the files generated so far (the prompt is built from these and from
    the project document, which does not change during the run);
  \<^item> \<open>write_ok\<close>: creating the directories of a path and writing the file succeed.
\<close>

record generation_env =
  clean_ok :: bool
  plan_outcome :: "string + string"
  file_outcome :: "string \<Rightarrow> (string \<times> string) list \<Rightarrow> string + string"
  write_ok :: "string \<Rightarrow> bool"

text \<open>\<open>existing_files_context\<close>: path and the first 500 characters of every generated file.\<close>

definition existing_files_context :: "generated_file list \<Rightarrow> (string \<times> string) list" where
  "existing_files_context generated =
     map (\<lambda>f. (gf_path f, take 500 (gf_content f))) generated"

text \<open>
  The body of the loop of phase 2 for one path: the list \<open>generated_files\<close> of the
  source (here \<open>generated\<close>) afterwards, and the lines printed. A failure of the write
  raises inside the \<open>try\<close>; the handler prints and goes on with the next file.
\<close>

definition generate_one_file ::
  "generation_env \<Rightarrow> string \<Rightarrow> generated_file list \<Rightarrow> generated_file list \<times> log_line list" where
  "generate_one_file env file_path generated =
     (let (content, agent_lines) =
            generate_file_content_with_context file_path
              (file_outcome env file_path (existing_files_context generated));
          builder_lines =
            (if \<not> pb_is_valid_generated_content_trusted content file_path
             then [BuilderValidationWarning file_path] else [])
      in if write_ok env file_path
         then (generated @
                 [\<lparr>gf_path = file_path, gf_content = content, gf_size = length content,
                   gf_type = get_file_type file_path,
                   gf_language = get_file_language file_path\<rparr>],
               agent_lines @ builder_lines)
         else (generated, agent_lines @ builder_lines @ [FileSkipped file_path]))"

text \<open>The loop over \<open>file_structure\<close>.\<close>

fun generate_files ::
  "generation_env \<Rightarrow> string list \<Rightarrow> generated_file list \<Rightarrow> log_line list \<Rightarrow>
   generated_file list \<times> log_line list" where
  "generate_files env [] generated printed = (generated, printed)"
| "generate_files env (file_path # rest) generated printed =
     (let (generated', lines) = generate_one_file env file_path generated
      in generate_files env rest generated' (printed @ lines))"

text \<open>
  \<open>ProjectBuilder.generate_project\<close>: \<open>Inl\<close> when the exception of the cleanup leaves the
  function, else the returned list and the printed lines. \<open>_build_preview_reliable\<close>
  catches every exception and changes nothing that is returned.
\<close>

datatype failure = CleanupFailed | ProjectNotFound string

definition generate_project :: "generation_env \<Rightarrow> failure + generated_file list \<times> log_line list" where
  "generate_project env =
     (if \<not> clean_ok env then Inl CleanupFailed
      else Inr (generate_files env (plan_project_structure (plan_outcome env)) [] []))"

section \<open>Storing the generated files\<close>

text \<open>\<open>LocalStorage.add_generated_file\<close>: the entry is appended to \<open>generated_files\<close>.\<close>

definition add_generated_file :: "project \<Rightarrow> string \<Rightarrow> string \<Rightarrow> project" where
  "add_generated_file project_data file_path content =
     project_data\<lparr>generated_files := generated_files project_data @
        [\<lparr>fd_path = file_path,
          fd_content = (if length content > 500 then take 500 content @ ''...'' else content),
          fd_size = length content\<rparr>]\<rparr>"

text \<open>The loop of \<open>AIDEServer.generate_project_code\<close> that stores the files of a run.\<close>

definition store_generated_files :: "project \<Rightarrow> generated_file list \<Rightarrow> project" where
  "store_generated_files project_data files =
     foldl (\<lambda>p f. add_generated_file p (gf_path f) (gf_content f)) project_data files"

section \<open>The server\<close>

subsection \<open>The generation status\<close>

text \<open>
  \<open>Orchestrator._get_generation_status_message\<close>: the four messages, the first with the
  number of agents it mentions.
\<close>

datatype status_message =
  ReadyToGenerate nat
  | DescribeRequirementsFirst
  | GettingThere
  | MakingProgress

definition get_generation_status_message :: "bool \<Rightarrow> nat \<Rightarrow> status_message" where
  "get_generation_status_message can_generate n =
     (if can_generate then ReadyToGenerate n
      else if n = 0 then DescribeRequirementsFirst
      else if n = 1 then GettingThere
      else MakingProgress)"

record generation_status =
  can_generate :: bool
  gs_substantial_agents :: nat
  agent_contributions :: "string list"
  gs_message :: status_message

text \<open>\<open>Orchestrator.can_generate_code\<close>, for the document of an existing project.\<close>

definition can_generate_code :: "project \<Rightarrow> generation_status" where
  "can_generate_code project_data =
     (let contributions = map fst (filter (\<lambda>(agent_name, req_data). has_substance req_data)
                                     (requirements project_data));
          minimal = has_minimal_requirements project_data
      in \<lparr>can_generate = minimal, gs_substantial_agents = length contributions,
          agent_contributions = contributions,
          gs_message = get_generation_status_message minimal (length contributions)\<rparr>)"

subsection \<open>Requests, replies and calls\<close>

text \<open>
  A parsed request: the keys of the JSON object the handlers read, \<open>None\<close> for a key
  that is absent.
\<close>

record request =
  req_type :: "string option"
  req_project_id :: "string option"
  req_message :: "string option"
  req_project_name :: "string option"

datatype message_body = Welcome | Reply string

datatype error_text =
  NoProjectId
  | FailedToProcessMessage failure
  | FailedToCheckGenerationStatus failure
  | FailedToGenerateCode failure
  | UnknownMessageType string
  | InvalidJSON

datatype outbound =
  ProjectCreated string string
  | AgentResponse message_body string
  | GenerationStatus string generation_status
  | GenerationFailed string status_message
  | GenerationStarted string
  | CodeGenerated "generated_file list" string nat nat
  | CodeGenerationError string failure
  | PreviewUrl string
  | ErrorMessage error_text
  | Pong

text \<open>
  What a handler does that is seen from outside, in order: the messages it sends to the
  client and its calls into \<open>ProjectBuilder\<close>. \<open>CalledGenerateProject\<close> is the call of
  \<open>project_builder.generate_project\<close>, which runs the structure planner, the file
  generator and the build of the preview; \<open>CalledGetPreviewUrl\<close> is the call of
  \<open>project_builder.get_preview_url\<close>, which starts the preview server of a project that
  has none.
\<close>

datatype event =
  Sent outbound
  | CalledGenerateProject
  | CalledGetPreviewUrl

text \<open>
  What lies outside the program while one request is handled: the reply of the completion
  service to the agent, the id drawn for a new project, the environment of a generation
  run and the URL \<open>get_preview_url\<close> returns. The store of project documents is a map
  from project ids; reading the document of an id that is not stored raises
  \<open>FileNotFoundError\<close>, and the store itself is taken to be reliable.
\<close>

record server_env =
  env_reply :: string
  new_project_id :: string
  generation :: generation_env
  preview_url :: string

type_synonym storage = "string \<Rightarrow> project option"

text \<open>
  \<open>data.get('project_id')\<close> under the test \<open>if not project_id\<close>: \<open>None\<close> when the
  key is absent or the id is empty.
\<close>

definition given_project_id :: "request \<Rightarrow> string option" where
  "given_project_id data =
     (case req_project_id data of
        None \<Rightarrow> None
      | Some project_id \<Rightarrow> if project_id = [] then None else Some project_id)"

subsection \<open>The handlers\<close>

definition handle_new_project :: "storage \<Rightarrow> server_env \<Rightarrow> request \<Rightarrow> storage \<times> event list" where
  "handle_new_project store env data =
     (let project_name = (case req_project_name data of Some n \<Rightarrow> n | None \<Rightarrow> ''New Project'');
          project_id = new_project_id env
      in (store(project_id \<mapsto>
                  set_active_agent (create_project project_name) ''requirements_evolver''),
          [Sent (ProjectCreated project_id project_name),
           Sent (AgentResponse Welcome ''requirements_evolver'')]))"

definition handle_user_message :: "storage \<Rightarrow> server_env \<Rightarrow> request \<Rightarrow> storage \<times> event list" where
  "handle_user_message store env data =
     (case given_project_id data of
        None \<Rightarrow> (store, [Sent (ErrorMessage NoProjectId)])
      | Some project_id \<Rightarrow>
        (let user_msg = (case req_message data of Some m \<Rightarrow> m | None \<Rightarrow> [])
         in case store project_id of
              None \<Rightarrow>
                (store, [Sent (ErrorMessage (FailedToProcessMessage (ProjectNotFound project_id)))])
            | Some project_data \<Rightarrow>
                (let (stored, agent_response) =
                       user_message_storage project_data user_msg (env_reply env)
                 in (store(project_id \<mapsto> stored),
                     [Sent (AgentResponse (Reply (rr_message agent_response))
                              (rr_agent agent_response)),
                      Sent (GenerationStatus project_id (can_generate_code stored))]))))"

definition handle_check_generation_status ::
  "storage \<Rightarrow> server_env \<Rightarrow> request \<Rightarrow> storage \<times> event list" where
  "handle_check_generation_status store env data =
     (case given_project_id data of
        None \<Rightarrow> (store, [Sent (ErrorMessage NoProjectId)])
      | Some project_id \<Rightarrow>
        (case store project_id of
              None \<Rightarrow>
                (store,
                 [Sent (ErrorMessage (FailedToCheckGenerationStatus (ProjectNotFound project_id)))])
            | Some project_data \<Rightarrow>
                (store, [Sent (GenerationStatus project_id (can_generate_code project_data))])))"

text \<open>\<open>AIDEServer.generate_project_code\<close>, for the document of an existing project.\<close>

definition generate_project_code ::
  "storage \<Rightarrow> server_env \<Rightarrow> string \<Rightarrow> project \<Rightarrow> storage \<times> event list" where
  "generate_project_code store env project_id project_data =
     (case generate_project (generation env) of
        Inl e \<Rightarrow>
          (store,
           [Sent (GenerationStarted project_id), CalledGenerateProject,
            Sent (CodeGenerationError project_id e),
            Sent (ErrorMessage (FailedToGenerateCode e))])
      | Inr (files, printed) \<Rightarrow>
          (store(project_id \<mapsto> store_generated_files project_data files),
           [Sent (GenerationStarted project_id), CalledGenerateProject, CalledGetPreviewUrl,
            Sent (CodeGenerated files (preview_url env) (length files)
                    (sum_list (map gf_size files)))]))"

definition handle_generate_code :: "storage \<Rightarrow> server_env \<Rightarrow> request \<Rightarrow> storage \<times> event list" where
  "handle_generate_code store env data =
     (case given_project_id data of
        None \<Rightarrow> (store, [Sent (ErrorMessage NoProjectId)])
      | Some project_id \<Rightarrow>
        (case store project_id of
              None \<Rightarrow>
                (store, [Sent (ErrorMessage (FailedToGenerateCode (ProjectNotFound project_id)))])
            | Some project_data \<Rightarrow>
                (let generation_status = can_generate_code project_data
                 in if \<not> can_generate generation_status
                    then (store, [Sent (GenerationFailed project_id (gs_message generation_status))])
                    else generate_project_code store env project_id project_data)))"

definition handle_get_preview :: "storage \<Rightarrow> server_env \<Rightarrow> request \<Rightarrow> storage \<times> event list" where
  "handle_get_preview store env data =
     (store, [CalledGetPreviewUrl, Sent (PreviewUrl (preview_url env))])"

text \<open>\<open>AIDEServer.process_request\<close>: \<open>data.get('type', 'message')\<close> selects the handler.\<close>

definition process_request :: "storage \<Rightarrow> server_env \<Rightarrow> request \<Rightarrow> storage \<times> event list" where
  "process_request store env data =
     (let message_type = (case req_type data of Some t \<Rightarrow> t | None \<Rightarrow> ''message'')
      in if message_type = ''new_project'' then handle_new_project store env data
         else if message_type = ''user_message'' then handle_user_message store env data
         else if message_type = ''get_preview'' then handle_get_preview store env data
         else if message_type = ''check_generation_status''
         then handle_check_generation_status store env data
         else if message_type = ''generate_code'' then handle_generate_code store env data
         else if message_type = ''ping'' then (store, [Sent Pong])
         else (store, [Sent (ErrorMessage (UnknownMessageType message_type))]))"

text \<open>
  \<open>AIDEServer.process_message\<close>: \<open>None\<close> stands for a text that \<open>json.loads\<close> rejects.
\<close>

definition process_message ::
  "storage \<Rightarrow> server_env \<Rightarrow> request option \<Rightarrow> storage \<times> event list" where
  "process_message store env message =
     (case message of
        None \<Rightarrow> (store, [Sent (ErrorMessage InvalidJSON)])
      | Some data \<Rightarrow> process_request store env data)"

text \<open>
  A session: the requests of a connection are handled one after the other, each in the
  store the one before it left.
\<close>

fun session :: "storage \<Rightarrow> (server_env \<times> request option) list \<Rightarrow> storage \<times> event list" where
  "session store [] = (store, [])"
| "session store ((env, message) # rest) =
     (let (store', events) = process_message store env message;
          (store'', events') = session store' rest
      in (store'', events @ events'))"

text \<open>A conversation turn: a request of type \<open>user_message\<close>.\<close>

definition is_conversation_turn :: "request option \<Rightarrow> bool" where
  "is_conversation_turn message =
     (case message of None \<Rightarrow> False | Some data \<Rightarrow> req_type data = Some ''user_message'')"

section \<open>Properties\<close>

subsection \<open>Strings\<close>

lemma any_in_iff: "any_in ks s \<longleftrightarrow> (\<exists>k \<in> set ks. py_in k s)"
  by (simp add: any_in_def list_ex_iff)

subsection \<open>The substance classifier\<close>

text \<open>
  Claim C5. A reply of fewer than 20 stripped characters is never substantial. For the
  first three agents of the chain a reply is substantial exactly when its stripped length
  is at least 30 and it is not a pure question: stripped text ending in \<open>?\<close>, shorter
  than 80, containing one of the question-opening phrases when lowercased. For the
  remaining agents of the chain it is substantial exactly when its stripped length is at
  least 40 and the lowercased reply contains one of that agent's technical indicators.
\<close>

theorem has_substantial_content_rules:
  "(length (strip response) < 20 \<longrightarrow> \<not> has_substantial_content response agent_name) \<and>
   (agent_name \<in> set (take 3 agent_chain) \<longrightarrow>
      (has_substantial_content response agent_name \<longleftrightarrow>
         length (strip response) \<ge> 30 \<and>
         \<not> (endswith (strip response) ''?'' \<and> length (strip response) < 80 \<and>
            (\<exists>phrase \<in> set [''what would'', ''can you'', ''please provide''].
               py_in phrase (strip (lower response)))))) \<and>
   (agent_name \<in> set (drop 3 agent_chain) \<longrightarrow>
      (has_substantial_content response agent_name \<longleftrightarrow>
         length (strip response) \<ge> 40 \<and>
         (\<exists>indicator \<in> set (agent_indicators agent_name).
            py_in indicator (strip (lower response)))))"
proof (intro conjI impI)
  assume "length (strip response) < 20"
  then show "\<not> has_substantial_content response agent_name"
    by (simp add: has_substantial_content_def)
next
  assume early: "agent_name \<in> set (take 3 agent_chain)"
  have empty: "response = [] \<Longrightarrow> length (strip response) = 0"
    by (simp add: strip_def lstrip_def rstrip_def)
  from early have "agent_name \<in> set [''requirements_evolver'', ''ux_architect'', ''ui_designer'']"
    by (simp add: agent_chain_def)
  then have "has_substantial_content response agent_name \<longleftrightarrow>
      \<not> (response = [] \<or> length (strip response) < 20) \<and>
      length (strip response) \<ge> 30 \<and> \<not> is_pure_question response"
    unfolding has_substantial_content_def by simp
  also have "\<dots> \<longleftrightarrow> length (strip response) \<ge> 30 \<and> \<not> is_pure_question response"
    using empty by auto
  finally show "has_substantial_content response agent_name \<longleftrightarrow>
         length (strip response) \<ge> 30 \<and>
         \<not> (endswith (strip response) ''?'' \<and> length (strip response) < 80 \<and>
            (\<exists>phrase \<in> set [''what would'', ''can you'', ''please provide''].
               py_in phrase (strip (lower response))))"
    by (simp only: is_pure_question_def any_in_iff)
next
  assume late: "agent_name \<in> set (drop 3 agent_chain)"
  have empty: "response = [] \<Longrightarrow> length (strip response) = 0"
    by (simp add: strip_def lstrip_def rstrip_def)
  from late have "agent_name \<notin> set [''requirements_evolver'', ''ux_architect'', ''ui_designer'']"
    by (auto simp add: agent_chain_def)
  then have "has_substantial_content response agent_name \<longleftrightarrow>
      \<not> (response = [] \<or> length (strip response) < 20) \<and>
      length (strip response) \<ge> 40 \<and>
      any_in (agent_indicators agent_name) (strip (lower response))"
    unfolding has_substantial_content_def by simp
  also have "\<dots> \<longleftrightarrow> length (strip response) \<ge> 40 \<and>
      any_in (agent_indicators agent_name) (strip (lower response))"
    using empty by auto
  finally show "has_substantial_content response agent_name \<longleftrightarrow>
         length (strip response) \<ge> 40 \<and>
         (\<exists>indicator \<in> set (agent_indicators agent_name).
            py_in indicator (strip (lower response)))"
    by (simp only: any_in_iff)
qed

theorem has_substantial_content_rules_witness:
  "length (strip ''  ok  '') < 20 \<and> \<not> has_substantial_content ''  ok  '' ''devops'' \<and>
   ''ux_architect'' \<in> set (take 3 agent_chain) \<and>
   has_substantial_content ''Users land on a board and open a task in one tap.'' ''ux_architect'' \<and>
   ''devops'' \<in> set (drop 3 agent_chain) \<and>
   has_substantial_content ''Deployment on a small Cloud server, nightly backups.'' ''devops''"
proof -
  let ?r = "''Users land on a board and open a task in one tap.''"
  let ?d = "''Deployment on a small Cloud server, nightly backups.''"
  have short: "length (strip ''  ok  '') < 20"
    by code_simp
  have early: "''ux_architect'' \<in> set (take 3 agent_chain)"
    by code_simp
  have early_len: "length (strip ?r) \<ge> 30"
    by code_simp
  have early_q: "\<not> endswith (strip ?r) ''?''"
    by code_simp
  have late: "''devops'' \<in> set (drop 3 agent_chain)"
    by code_simp
  have late_len: "length (strip ?d) \<ge> 40"
    by code_simp
  have late_kw: "''cloud'' \<in> set (agent_indicators ''devops'') \<and> py_in ''cloud'' (strip (lower ?d))"
    by code_simp
  from has_substantial_content_rules [of "''  ok  ''" "''devops''"] short
  have 1: "\<not> has_substantial_content ''  ok  '' ''devops''"
    by blast
  from has_substantial_content_rules [of ?r "''ux_architect''"] early early_len early_q
  have 2: "has_substantial_content ?r ''ux_architect''"
    by blast
  from has_substantial_content_rules [of ?d "''devops''"] late late_len late_kw
  have 3: "has_substantial_content ?d ''devops''"
    by blast
  from short 1 early 2 late 3 show ?thesis
    by blast
qed

subsection \<open>The readiness gate\<close>

lemma has_minimal_requirements_iff:
  "has_minimal_requirements project_data \<longleftrightarrow>
     substantial_agents project_data \<ge> 2 \<or>
     (has_requirements_evolver project_data \<and> substantial_agents project_data \<ge> 1)"
  by (auto simp add: has_minimal_requirements_def)

lemma one_other_agent_not_ready:
  "substantial_agents project_data = 1 \<Longrightarrow> \<not> has_requirements_evolver project_data \<Longrightarrow>
   \<not> has_minimal_requirements project_data"
  by (simp add: has_minimal_requirements_def)

lemma no_agent_not_ready:
  "substantial_agents project_data = 0 \<Longrightarrow> \<not> has_minimal_requirements project_data"
  by (simp add: has_minimal_requirements_def)

text \<open>
  Claim C1. The claim asks that a project whose only substantial requirement record is
  the one of \<open>requirements_evolver\<close> cannot generate. The gate evaluated on such a
  project: a new project in which \<open>requirements_evolver\<close> has given one substantial reply
  counts one substantial agent, and the gate accepts it.
\<close>

theorem requirements_evolver_alone_passes_gate:
  "substantial_agents
     (fst (extract_requirements_enhanced (create_project ''Todo App'') ''requirements_evolver''
        ''A todo app with tasks, tags and due dates.'' ''I want a todo app'')) = 1 \<and>
   has_minimal_requirements
     (fst (extract_requirements_enhanced (create_project ''Todo App'') ''requirements_evolver''
        ''A todo app with tasks, tags and due dates.'' ''I want a todo app''))"
  by code_simp

subsection \<open>The router\<close>

lemma keywords_of_simps:
  "keywords_of ''ui_designer'' = [''change design'', ''change color'', ''ui design'', ''ui'']"
  "keywords_of ''ux_architect'' = [''navigate'', ''user flow'', ''ux'', ''experience'', ''usability'', ''interface'']"
  "keywords_of ''data_architect'' = [''database'', ''data'', ''store'', ''save'', ''storage'', ''persist'']"
  "keywords_of ''api_designer'' = [''api'', ''backend'', ''server'', ''endpoint'', ''rest'', ''json'']"
  "keywords_of ''frontend_engineer'' = [''javascript'', ''react'', ''vue'', ''frontend'', ''client'', ''browser'', ''technical'', ''implementation'']"
  "keywords_of ''devops'' = [''deploy'', ''host'', ''server'', ''domain'', ''production'', ''cloud'']"
  by (simp_all add: keywords_of_def agent_keywords_def)

lemma keyword_match_table:
  "keyword_match m = (case table_matches m of [] \<Rightarrow> None | a # _ \<Rightarrow> Some a)"
  unfolding keyword_match_def table_matches_def keyword_order_def
  by (simp add: keywords_of_simps) (simp add: agent_keywords_def)

lemma keywords_of_requirements_evolver: "keywords_of ''requirements_evolver'' = []"
  by (simp add: keywords_of_def agent_keywords_def)

lemma chain_cases:
  "a \<in> set agent_chain \<Longrightarrow> a = ''requirements_evolver'' \<or> a \<in> set keyword_order"
  by (auto simp add: agent_chain_def keyword_order_def)

lemma matching_roles_subset:
  assumes "a \<in> set (matching_roles current_agent m)"
  shows "a \<in> set (table_matches m)"
proof -
  from assms have chain: "a \<in> set agent_chain" and hit: "any_in (keywords_of a) m"
    by (simp_all add: matching_roles_def)
  from hit have "a \<noteq> ''requirements_evolver''"
    by (auto simp add: keywords_of_requirements_evolver any_in_def)
  with chain chain_cases have "a \<in> set keyword_order"
    by blast
  with hit show ?thesis
    by (simp add: table_matches_def)
qed

text \<open>
  Claim C4, as amended. When no approval override applies and the lowercased message
  contains keywords of two or more agents other than the current one, the router returns
  the agent that comes first in the order of the keyword table (\<open>ui_designer\<close>,
  \<open>ux_architect\<close>, \<open>data_architect\<close>, \<open>api_designer\<close>, \<open>frontend_engineer\<close>,
  \<open>devops\<close>) among all agents with a keyword in the message, the current one included.
\<close>

theorem keyword_jump_table_order:
  assumes "approval_override current_agent (lower user_msg) = None"
    and "2 \<le> length (matching_roles current_agent (lower user_msg))"
  shows "determine_next_agent_enhanced current_agent user_msg project_data =
           hd (table_matches (lower user_msg))"
proof -
  from assms(2) obtain a where "a \<in> set (matching_roles current_agent (lower user_msg))"
    by (cases "matching_roles current_agent (lower user_msg)") auto
  then have "table_matches (lower user_msg) \<noteq> []"
    using matching_roles_subset by fastforce
  then obtain b bs where "table_matches (lower user_msg) = b # bs"
    by (cases "table_matches (lower user_msg)") auto
  with assms(1) show ?thesis
    by (simp add: determine_next_agent_enhanced_def keyword_match_table)
qed

theorem keyword_jump_table_order_witness:
  "approval_override ''requirements_evolver'' (lower ''Make the UI and UX better'') = None \<and>
   2 \<le> length (matching_roles ''requirements_evolver'' (lower ''Make the UI and UX better'')) \<and>
   hd (table_matches (lower ''Make the UI and UX better'')) = ''ui_designer'' \<and>
   determine_next_agent_enhanced ''requirements_evolver'' ''Make the UI and UX better''
     (create_project ''Todo App'') = ''ui_designer''"
proof -
  have no_override:
    "approval_override ''requirements_evolver'' (lower ''Make the UI and UX better'') = None"
    by code_simp
  have two: "2 \<le> length (matching_roles ''requirements_evolver'' (lower ''Make the UI and UX better''))"
    by code_simp
  have first: "hd (table_matches (lower ''Make the UI and UX better'')) = ''ui_designer''"
    by code_simp
  from keyword_jump_table_order [OF no_override two, of "create_project ''Todo App''"]
    no_override two first
  show ?thesis
    by simp
qed

text \<open>
  Claim C4, as stated, fails. The message below contains keywords of \<open>ux_architect\<close> and
  of \<open>ui_designer\<close> and no approval phrase; \<open>ux_architect\<close> comes first in the chain, and
  the router returns \<open>ui_designer\<close>.
\<close>

theorem keyword_jump_chain_order_counterexample:
  "approval_override ''requirements_evolver'' (lower ''Make the UI and UX better'') = None \<and>
   matching_roles ''requirements_evolver'' (lower ''Make the UI and UX better'') =
     [''ux_architect'', ''ui_designer''] \<and>
   determine_next_agent_enhanced ''requirements_evolver'' ''Make the UI and UX better''
     (create_project ''Todo App'') = ''ui_designer'' \<and>
   determine_next_agent_enhanced ''requirements_evolver'' ''Make the UI and UX better''
     (create_project ''Todo App'') \<noteq>
   hd (matching_roles ''requirements_evolver'' (lower ''Make the UI and UX better''))"
  by code_simp

lemma keyword_match_in_chain: "keyword_match m = Some a \<Longrightarrow> a \<in> set agent_chain"
proof -
  assume "keyword_match m = Some a"
  then have "a \<in> set (table_matches m)"
    by (auto simp add: keyword_match_table split: list.splits)
  then have "a \<in> set keyword_order"
    by (simp add: table_matches_def)
  then show ?thesis
    by (auto simp add: keyword_order_def agent_chain_def)
qed

lemma approval_override_in_chain:
  "approval_override current_agent m = Some a \<Longrightarrow> a \<in> set agent_chain"
  by (auto simp add: approval_override_def agent_chain_def split: if_splits)

lemma index_of_less: "x \<in> set xs \<Longrightarrow> index_of xs x < length xs"
  by (induction xs) auto

lemma progress_switch_in_chain:
  assumes "current_agent \<in> set agent_chain"
  shows "progress_switch current_agent project_data \<in> set agent_chain"
proof (cases "(current_has_contributed current_agent project_data \<or>
                message_count current_agent project_data \<ge> 2) \<and>
               index_of agent_chain current_agent < length agent_chain - 1")
  case True
  then have "index_of agent_chain current_agent + 1 < length agent_chain"
    by linarith
  then have "agent_chain ! (index_of agent_chain current_agent + 1) \<in> set agent_chain"
    by (rule nth_mem)
  with True assms show ?thesis
    by (simp add: progress_switch_def Let_def)
next
  case False
  with assms show ?thesis
    by (auto simp add: progress_switch_def Let_def)
qed

lemma determine_next_agent_enhanced_in_chain:
  "current_agent \<in> set agent_chain \<Longrightarrow>
   determine_next_agent_enhanced current_agent user_msg project_data \<in> set agent_chain"
  unfolding determine_next_agent_enhanced_def Let_def
  by (auto split: option.splits
      intro: approval_override_in_chain keyword_match_in_chain progress_switch_in_chain)

lemma active_agent_user_message_storage:
  "active_agent (fst (user_message_storage project_data user_msg llm_reply)) =
     determine_next_agent_enhanced (active_agent project_data) user_msg
       (add_message project_data ''user'' user_msg)"
  by (simp add: user_message_storage_def route_message_def Let_def add_message_def
      extract_requirements_enhanced_def update_requirements_def set_active_agent_def
      split: prod.splits)

lemma conversation_in_chain:
  "active_agent project_data \<in> set agent_chain \<Longrightarrow>
   active_agent (conversation project_data turns) \<in> set agent_chain"
  unfolding conversation_def
proof (induction turns arbitrary: project_data)
  case Nil
  then show ?case by simp
next
  case (Cons t turns)
  obtain user_msg llm_reply where t: "t = (user_msg, llm_reply)"
    by (cases t)
  have "active_agent (fst (user_message_storage project_data user_msg llm_reply)) \<in> set agent_chain"
    using Cons.prems
    by (simp add: active_agent_user_message_storage determine_next_agent_enhanced_in_chain)
  from Cons.IH [OF this] show ?case
    by (simp add: t)
qed

text \<open>
  Claim C10. The next-agent function maps a member of the chain and any message to a
  member of the chain, and after any finite sequence of user turns on a newly created
  project the active agent is a member of the chain.
\<close>

theorem active_agent_always_in_chain:
  "(current_agent \<in> set agent_chain \<longrightarrow>
      determine_next_agent_enhanced current_agent user_msg project_data \<in> set agent_chain) \<and>
   active_agent (conversation (create_project name) turns) \<in> set agent_chain"
proof -
  have "active_agent (create_project name) \<in> set agent_chain"
    by (simp add: create_project_def agent_chain_def)
  then show ?thesis
    using conversation_in_chain determine_next_agent_enhanced_in_chain by blast
qed

theorem active_agent_always_in_chain_witness:
  "''devops'' \<in> set agent_chain \<and>
   determine_next_agent_enhanced ''devops'' ''thanks'' (create_project ''Todo App'')
     \<in> set agent_chain \<and>
   active_agent (conversation (create_project ''Todo App'')
     [(''I want a todo app'', ''A todo app with tasks, tags and due dates.'')]) \<in> set agent_chain"
proof -
  have "''devops'' \<in> set agent_chain"
    by code_simp
  with active_agent_always_in_chain [of "''devops''" "''thanks''" "create_project ''Todo App''"
      "''Todo App''" "[(''I want a todo app'', ''A todo app with tasks, tags and due dates.'')]"]
  show ?thesis
    by blast
qed

subsection \<open>The structure planner\<close>

lemma preferred_groups:
  "preferred [''index.html'', ''templates/index.html''] = [''templates/index.html'']"
  "preferred [''style.css'', ''static/css/style.css'', ''styles.css''] = [''static/css/style.css'']"
  "preferred [''app.js'', ''static/js/app.js'', ''scripts.js''] = [''static/js/app.js'']"
  by (simp_all add: preferred_def)

lemma resolve_step_canonical:
  "resolve_step resolved_files file_path =
     (if canonical_path file_path \<notin> set resolved_files
      then resolved_files @ [canonical_path file_path] else resolved_files)"
  unfolding resolve_step_def conflict_groups_def canonical_path_def
  by (simp add: preferred_groups)

lemma foldl_resolve_step:
  "foldl resolve_step acc file_list =
     foldl (\<lambda>seen x. if x \<notin> set seen then seen @ [x] else seen) acc (map canonical_path file_list)"
  by (induction file_list arbitrary: acc) (simp_all add: resolve_step_canonical)

lemma resolve_file_conflicts_first_seen:
  "resolve_file_conflicts file_list = first_seen (map canonical_path file_list)"
  by (simp add: resolve_file_conflicts_def first_seen_def foldl_resolve_step)

lemma foldl_seen_props:
  "distinct acc \<Longrightarrow>
   distinct (foldl (\<lambda>seen x. if x \<notin> set seen then seen @ [x] else seen) acc xs) \<and>
   set (foldl (\<lambda>seen x. if x \<notin> set seen then seen @ [x] else seen) acc xs) = set acc \<union> set xs"
  by (induction xs arbitrary: acc) auto

lemma distinct_first_seen: "distinct (first_seen xs)"
  using foldl_seen_props [of "[]" xs] by (simp add: first_seen_def)

lemma set_first_seen: "set (first_seen xs) = set xs"
  using foldl_seen_props [of "[]" xs] by (simp add: first_seen_def)

lemma count_list_distinct:
  "distinct xs \<Longrightarrow> count_list xs x = (if x \<in> set xs then 1 else 0)"
  by (induction xs) auto

lemma foldl_add_essential_props:
  "distinct file_list \<Longrightarrow>
   distinct (foldl add_essential file_list es) \<and>
   set (foldl add_essential file_list es) = set file_list \<union> set es"
  by (induction es arbitrary: file_list) (auto simp add: add_essential_def)

lemma distinct_extract: "distinct (extract_file_list_deduplicated response)"
  unfolding extract_file_list_deduplicated_def resolve_file_conflicts_first_seen
  using foldl_add_essential_props [OF distinct_first_seen] by blast

lemma set_extract:
  "set (extract_file_list_deduplicated response) =
     canonical_path ` set (List.map_filter path_of_line (split_on (CHR 0x0A) (strip response)))
     \<union> set essential_files"
  unfolding extract_file_list_deduplicated_def resolve_file_conflicts_first_seen
  using foldl_add_essential_props [OF distinct_first_seen]
  by (simp add: set_first_seen)


lemma canonical_path_not_alias:
  "canonical_path f \<notin> {''index.html'', ''style.css'', ''styles.css'', ''app.js'', ''scripts.js''}"
  by (simp add: canonical_path_def)

lemma canonical_path_eq_iff:
  "canonical_path f = ''templates/index.html'' \<longleftrightarrow> f \<in> set [''index.html'', ''templates/index.html'']"
  "canonical_path f = ''static/css/style.css'' \<longleftrightarrow> f \<in> set [''style.css'', ''static/css/style.css'', ''styles.css'']"
  "canonical_path f = ''static/js/app.js'' \<longleftrightarrow> f \<in> set [''app.js'', ''static/js/app.js'', ''scripts.js'']"
  by (auto simp add: canonical_path_def)

lemma hd_preferred_canonical:
  "(name, conflict_group) \<in> set conflict_groups \<Longrightarrow>
   canonical_path f = hd (preferred conflict_group) \<longleftrightarrow> f \<in> set conflict_group"
  unfolding conflict_groups_def
  by (auto simp add: preferred_groups canonical_path_eq_iff)

lemma other_member_not_canonical:
  "(name, conflict_group) \<in> set conflict_groups \<Longrightarrow> other \<in> set conflict_group \<Longrightarrow>
   other \<noteq> hd (preferred conflict_group) \<Longrightarrow> canonical_path f \<noteq> other"
  using canonical_path_not_alias [of f] unfolding conflict_groups_def
  by (auto simp add: preferred_groups)

text \<open>
  Claim C8. Conflict resolution turns the plan \<open>style.css\<close>, \<open>static/css/style.css\<close>
  into the one path \<open>static/css/style.css\<close>. For every plan and every conflict group,
  the preferred nested path of the group occurs exactly once in the output when a member
  of the group is in the plan (and not at all otherwise), and no other member of the group
  occurs in the output. The output is the plan with every path replaced by its canonical
  path, each path kept at its first occurrence.
\<close>

theorem resolve_file_conflicts_groups:
  "resolve_file_conflicts [''style.css'', ''static/css/style.css''] = [''static/css/style.css''] \<and>
   (\<forall>(name, conflict_group) \<in> set conflict_groups.
      count_list (resolve_file_conflicts file_list) (hd (preferred conflict_group)) =
        (if \<exists>f \<in> set file_list. f \<in> set conflict_group then 1 else 0) \<and>
      (\<forall>other \<in> set conflict_group. other \<noteq> hd (preferred conflict_group) \<longrightarrow>
         other \<notin> set (resolve_file_conflicts file_list))) \<and>
   resolve_file_conflicts file_list = first_seen (map canonical_path file_list)"
proof (intro conjI)
  show "resolve_file_conflicts [''style.css'', ''static/css/style.css''] = [''static/css/style.css'']"
    by code_simp
next
  show "resolve_file_conflicts file_list = first_seen (map canonical_path file_list)"
    by (rule resolve_file_conflicts_first_seen)
next
  have set_res: "set (resolve_file_conflicts file_list) = canonical_path ` set file_list"
    by (simp add: resolve_file_conflicts_first_seen set_first_seen)
  have dist: "distinct (resolve_file_conflicts file_list)"
    by (simp add: resolve_file_conflicts_first_seen distinct_first_seen)
  show "\<forall>(name, conflict_group) \<in> set conflict_groups.
      count_list (resolve_file_conflicts file_list) (hd (preferred conflict_group)) =
        (if \<exists>f \<in> set file_list. f \<in> set conflict_group then 1 else 0) \<and>
      (\<forall>other \<in> set conflict_group. other \<noteq> hd (preferred conflict_group) \<longrightarrow>
         other \<notin> set (resolve_file_conflicts file_list))"
  proof (intro ballI, clarify, intro conjI)
    fix name conflict_group
    assume g: "(name, conflict_group) \<in> set conflict_groups"
    have canon: "canonical_path f = hd (preferred conflict_group) \<longleftrightarrow> f \<in> set conflict_group"
      for f
      using hd_preferred_canonical [OF g] by blast
    have "hd (preferred conflict_group) \<in> canonical_path ` set file_list \<longleftrightarrow>
          (\<exists>f \<in> set file_list. f \<in> set conflict_group)"
    proof
      assume "hd (preferred conflict_group) \<in> canonical_path ` set file_list"
      then obtain f where "f \<in> set file_list" "canonical_path f = hd (preferred conflict_group)"
        by (auto simp add: image_iff)
      with canon show "\<exists>f \<in> set file_list. f \<in> set conflict_group"
        by blast
    next
      assume "\<exists>f \<in> set file_list. f \<in> set conflict_group"
      then obtain f where "f \<in> set file_list" "f \<in> set conflict_group"
        by blast
      with canon have "canonical_path f = hd (preferred conflict_group)"
        by blast
      with \<open>f \<in> set file_list\<close> show "hd (preferred conflict_group) \<in> canonical_path ` set file_list"
        by (metis image_eqI)
    qed
    then show "count_list (resolve_file_conflicts file_list) (hd (preferred conflict_group)) =
        (if \<exists>f \<in> set file_list. f \<in> set conflict_group then 1 else 0)"
      by (simp add: count_list_distinct [OF dist] set_res)
    show "\<forall>other \<in> set conflict_group. other \<noteq> hd (preferred conflict_group) \<longrightarrow>
         other \<notin> set (resolve_file_conflicts file_list)"
    proof (intro ballI impI)
      fix other
      assume "other \<in> set conflict_group" "other \<noteq> hd (preferred conflict_group)"
      note other = this
      show "other \<notin> set (resolve_file_conflicts file_list)"
      proof
        assume "other \<in> set (resolve_file_conflicts file_list)"
        then obtain f where "other = canonical_path f"
          unfolding set_res by blast
        with other_member_not_canonical [OF g other, of f] show False
          by simp
      qed
    qed
  qed
qed


theorem resolve_file_conflicts_groups_witness:
  "(''style.css'', [''style.css'', ''static/css/style.css'', ''styles.css'']) \<in> set conflict_groups \<and>
   (\<exists>f \<in> set [''styles.css'', ''app.py'', ''style.css''].
      f \<in> set [''style.css'', ''static/css/style.css'', ''styles.css'']) \<and>
   count_list (resolve_file_conflicts [''styles.css'', ''app.py'', ''style.css''])
     ''static/css/style.css'' = 1 \<and>
   ''style.css'' \<in> set [''style.css'', ''static/css/style.css'', ''styles.css''] \<and>
   ''style.css'' \<noteq> ''static/css/style.css'' \<and>
   ''style.css'' \<notin> set (resolve_file_conflicts [''styles.css'', ''app.py'', ''style.css''])"
proof -
  let ?g = "[''style.css'', ''static/css/style.css'', ''styles.css'']"
  let ?fl = "[''styles.css'', ''app.py'', ''style.css'']"
  have g: "(''style.css'', ?g) \<in> set conflict_groups"
    by code_simp
  have p: "hd (preferred ?g) = ''static/css/style.css''"
    by code_simp
  have ex: "\<exists>f \<in> set ?fl. f \<in> set ?g"
    by code_simp
  have m: "''style.css'' \<in> set ?g"
    by code_simp
  have ne: "''style.css'' \<noteq> ''static/css/style.css''"
    by code_simp
  note groups = resolve_file_conflicts_groups [of ?fl, THEN conjunct2, THEN conjunct1]
  from bspec [OF groups g]
  have both: "count_list (resolve_file_conflicts ?fl) (hd (preferred ?g)) =
          (if \<exists>f \<in> set ?fl. f \<in> set ?g then 1 else 0) \<and>
        (\<forall>other \<in> set ?g. other \<noteq> hd (preferred ?g) \<longrightarrow>
           other \<notin> set (resolve_file_conflicts ?fl))"
    unfolding prod.case .
  from both [THEN conjunct1]
  have once: "count_list (resolve_file_conflicts ?fl) ''static/css/style.css'' = 1"
    unfolding p by (simp only: ex if_True)
  from bspec [OF both [THEN conjunct2] m]
  have "''style.css'' \<noteq> ''static/css/style.css'' \<longrightarrow>
        ''style.css'' \<notin> set (resolve_file_conflicts ?fl)"
    unfolding p .
  from mp [OF this ne] have absent: "''style.css'' \<notin> set (resolve_file_conflicts ?fl)" .
  show ?thesis
    by (intro conjI g ex once m ne absent)
qed

lemma essential_in_extract:
  "f \<in> set essential_files \<Longrightarrow> f \<in> set (extract_file_list_deduplicated response)"
  by (simp add: set_extract)

lemma essential_in_plan:
  "f \<in> set essential_files \<Longrightarrow> f \<in> set (plan_project_structure outcome)"
  by (cases outcome) (simp_all add: plan_project_structure_def essential_in_extract essential_files_def)

text \<open>
  In the list the planner returns, every conflict group is present through its preferred
  path, once, whatever the reply was.
\<close>

lemma hd_preferred_essential:
  "(name, conflict_group) \<in> set conflict_groups \<Longrightarrow>
   hd (preferred conflict_group) \<in> set essential_files"
  unfolding conflict_groups_def
  by (auto simp add: preferred_groups essential_files_def)

lemma other_member_not_essential:
  "(name, conflict_group) \<in> set conflict_groups \<Longrightarrow> other \<in> set conflict_group \<Longrightarrow>
   other \<noteq> hd (preferred conflict_group) \<Longrightarrow> other \<notin> set essential_files"
  unfolding conflict_groups_def
  by (auto simp add: preferred_groups essential_files_def)

lemma planner_groups_exactly_once:
  assumes g: "(name, conflict_group) \<in> set conflict_groups"
  shows "count_list (extract_file_list_deduplicated response) (hd (preferred conflict_group)) = 1 \<and>
     (\<forall>other \<in> set conflict_group. other \<noteq> hd (preferred conflict_group) \<longrightarrow>
        other \<notin> set (extract_file_list_deduplicated response))"
proof (intro conjI ballI impI)
  have "hd (preferred conflict_group) \<in> set (extract_file_list_deduplicated response)"
    using hd_preferred_essential [OF g] by (rule essential_in_extract)
  then show "count_list (extract_file_list_deduplicated response) (hd (preferred conflict_group)) = 1"
    by (simp add: count_list_distinct [OF distinct_extract])
next
  fix other
  assume other: "other \<in> set conflict_group" "other \<noteq> hd (preferred conflict_group)"
  show "other \<notin> set (extract_file_list_deduplicated response)"
  proof
    assume "other \<in> set (extract_file_list_deduplicated response)"
    then consider f where "other = canonical_path f" | "other \<in> set essential_files"
      unfolding set_extract by blast
    then show False
    proof cases
      case 1
      with other_member_not_canonical [OF g other, of f] show False
        by simp
    next
      case 2
      with other_member_not_essential [OF g other] show False
        by simp
    qed
  qed
qed

lemma planner_style_css_example:
  "extract_file_list_deduplicated (''style.css'' @ [CHR 0x0A] @ ''static/css/style.css'') =
     [''static/css/style.css'', ''app.py'', ''requirements.txt'', ''templates/index.html'',
      ''static/js/app.js'']"
  by code_simp

text \<open>
  Claim C7. Whatever the outcome of the completion call, a reply with any text or a
  failure, the planned file list contains the five baseline paths; on a failure it is
  exactly the baseline list. The function returns a list for every outcome.
\<close>

theorem plan_project_structure_essentials:
  "''app.py'' \<in> set (plan_project_structure outcome) \<and>
   ''requirements.txt'' \<in> set (plan_project_structure outcome) \<and>
   ''templates/index.html'' \<in> set (plan_project_structure outcome) \<and>
   ''static/css/style.css'' \<in> set (plan_project_structure outcome) \<and>
   ''static/js/app.js'' \<in> set (plan_project_structure outcome) \<and>
   plan_project_structure (Inl e) =
     [''app.py'', ''requirements.txt'', ''templates/index.html'', ''static/css/style.css'',
      ''static/js/app.js'']"
proof (intro conjI)
  show "plan_project_structure (Inl e) =
     [''app.py'', ''requirements.txt'', ''templates/index.html'', ''static/css/style.css'',
      ''static/js/app.js'']"
    by (simp add: plan_project_structure_def)
qed (rule essential_in_plan, simp add: essential_files_def)+

subsection \<open>The file generator\<close>

lemma fst_generate_file:
  "fst (generate_one_file env file_path generated) =
     (if write_ok env file_path
      then generated @
        [\<lparr>gf_path = file_path,
          gf_content = fst (generate_file_content_with_context file_path
            (file_outcome env file_path (existing_files_context generated))),
          gf_size = length (fst (generate_file_content_with_context file_path
            (file_outcome env file_path (existing_files_context generated)))),
          gf_type = get_file_type file_path, gf_language = get_file_language file_path\<rparr>]
      else generated)"
  by (simp add: generate_one_file_def Let_def split: prod.splits)

lemma generate_files_Cons:
  "fst (generate_files env (file_path # rest) generated printed) =
     fst (generate_files env rest (fst (generate_one_file env file_path generated))
       (printed @ snd (generate_one_file env file_path generated)))"
  by (simp add: Let_def split: prod.splits)

lemma generate_files_paths:
  "map gf_path (fst (generate_files env plan generated printed)) =
     map gf_path generated @ filter (write_ok env) plan"
proof (induction plan arbitrary: generated printed)
  case Nil
  then show ?case by simp
next
  case (Cons file_path rest)
  show ?case
    unfolding generate_files_Cons Cons.IH by (simp add: fst_generate_file)
qed

lemma generate_files_prefix:
  "take (length generated) (fst (generate_files env plan generated printed)) = generated"
proof (induction plan arbitrary: generated printed)
  case Nil
  then show ?case by simp
next
  case (Cons file_path rest)
  let ?next = "fst (generate_one_file env file_path generated)"
  let ?recs = "fst (generate_files env (file_path # rest) generated printed)"
  have "take (length ?next) ?recs = ?next"
    unfolding generate_files_Cons by (rule Cons.IH)
  then have "take (length generated) (take (length ?next) ?recs) = take (length generated) ?next"
    by simp
  moreover have "length generated \<le> length ?next" "take (length generated) ?next = generated"
    by (simp_all add: fst_generate_file)
  ultimately show ?case
    by (simp add: min_def)
qed

lemma generate_files_contents:
  assumes "\<forall>p \<in> set plan. write_ok env p" and "k < length plan"
  shows "gf_content (fst (generate_files env plan generated printed) ! (length generated + k)) =
     fst (generate_file_content_with_context (plan ! k)
       (file_outcome env (plan ! k)
          (existing_files_context
             (take (length generated + k) (fst (generate_files env plan generated printed))))))"
  using assms
proof (induction plan arbitrary: generated printed k)
  case Nil
  then show ?case by simp
next
  case (Cons file_path rest)
  let ?r = "\<lparr>gf_path = file_path,
            gf_content = fst (generate_file_content_with_context file_path
              (file_outcome env file_path (existing_files_context generated))),
            gf_size = length (fst (generate_file_content_with_context file_path
              (file_outcome env file_path (existing_files_context generated)))),
            gf_type = get_file_type file_path, gf_language = get_file_language file_path\<rparr>"
  let ?pr = "printed @ snd (generate_one_file env file_path generated)"
  let ?recs = "fst (generate_files env rest (generated @ [?r]) ?pr)"
  from Cons.prems have w: "write_ok env file_path" and ws: "\<forall>p \<in> set rest. write_ok env p"
    by simp_all
  have recs: "fst (generate_files env (file_path # rest) generated printed) = ?recs"
    unfolding generate_files_Cons using w by (simp add: fst_generate_file)
  have pre: "take (Suc (length generated)) ?recs = generated @ [?r]"
    using generate_files_prefix [of "generated @ [?r]" env rest ?pr] by simp
  have len: "length generated < length ?recs"
  proof -
    have "length (take (Suc (length generated)) ?recs) = Suc (length generated)"
      unfolding pre by simp
    then show ?thesis by simp
  qed
  show ?case
  proof (cases k)
    case 0
    have "take (length generated) (take (Suc (length generated)) ?recs) = generated"
      unfolding pre by simp
    then have t: "take (length generated) ?recs = generated"
      by (simp add: min_def)
    have "take (Suc (length generated)) ?recs ! length generated = ?r"
      unfolding pre by simp
    then have n: "?recs ! length generated = ?r"
      by simp
    show ?thesis
      unfolding recs using 0 t n by simp
  next
    case (Suc j)
    with Cons.prems have j: "j < length rest"
      by simp
    from Cons.IH [OF ws j, of "generated @ [?r]" ?pr]
    show ?thesis
      unfolding recs using Suc by simp
  qed
qed

lemma generate_files_contents_0:
  assumes "\<forall>p \<in> set plan. write_ok env p" and "k < length plan"
  shows "gf_content (fst (generate_files env plan [] []) ! k) =
     fst (generate_file_content_with_context (plan ! k)
       (file_outcome env (plan ! k)
          (existing_files_context (take k (fst (generate_files env plan [] []))))))"
  using generate_files_contents [OF assms, of "[]" "[]"] by simp

lemma generate_files_all_written:
  assumes "\<forall>p \<in> set plan. write_ok env p"
  shows "map gf_path (fst (generate_files env plan [] [])) = plan"
  using assms by (simp add: generate_files_paths)

text \<open>
  Claim C2, as amended. When every file of the plan can be written and the completion
  call fails for the file at position \<open>k\<close>, the run still returns one record for every
  file of the plan, in the order of the plan: their number is the length of the plan, and
  the record at position \<open>k\<close> holds the placeholder content with the text of the error.
\<close>

theorem failed_completion_gives_placeholder:
  assumes "\<forall>p \<in> set plan. write_ok env p"
    and "k < length plan"
    and "file_outcome env (plan ! k)
           (existing_files_context (take k (fst (generate_files env plan [] [])))) = Inl e"
  shows "map gf_path (fst (generate_files env plan [] [])) = plan \<and>
         length (fst (generate_files env plan [] [])) = length plan \<and>
         gf_content (fst (generate_files env plan [] []) ! k) =
           ''# Error generating '' @ plan ! k @ ''. Please try again.'' @ [CHR 0x0A] @ ''# '' @ e"
proof -
  have paths: "map gf_path (fst (generate_files env plan [] [])) = plan"
    using assms(1) by (rule generate_files_all_written)
  then have "length (map gf_path (fst (generate_files env plan [] []))) = length plan"
    by simp
  then have len: "length (fst (generate_files env plan [] [])) = length plan"
    by simp
  have "gf_content (fst (generate_files env plan [] []) ! k) =
      fst (generate_file_content_with_context (plan ! k) (Inl e))"
    using generate_files_contents_0 [OF assms(1,2)] assms(3) by simp
  then have "gf_content (fst (generate_files env plan [] []) ! k) =
           ''# Error generating '' @ plan ! k @ ''. Please try again.'' @ [CHR 0x0A] @ ''# '' @ e"
    by (simp add: generate_file_content_with_context_def)
  with paths len show ?thesis
    by blast
qed

theorem failed_completion_gives_placeholder_witness:
  "list_all (\<lambda>file_path. True) [''app.py'', ''requirements.txt''] \<and>
   (1::nat) < length [''app.py'', ''requirements.txt''] \<and>
   map gf_path (fst (generate_files
       \<lparr>clean_ok = True, plan_outcome = Inl ''connection refused'',
        file_outcome = (\<lambda>file_path context.
           if file_path = ''requirements.txt'' then Inl ''timed out'' else Inr ''flask''),
        write_ok = (\<lambda>file_path. True)\<rparr>
       [''app.py'', ''requirements.txt''] [] [])) = [''app.py'', ''requirements.txt''] \<and>
   gf_content (fst (generate_files
       \<lparr>clean_ok = True, plan_outcome = Inl ''connection refused'',
        file_outcome = (\<lambda>file_path context.
           if file_path = ''requirements.txt'' then Inl ''timed out'' else Inr ''flask''),
        write_ok = (\<lambda>file_path. True)\<rparr>
       [''app.py'', ''requirements.txt''] [] []) ! 1) =
     ''# Error generating requirements.txt. Please try again.'' @ [CHR 0x0A] @ ''# timed out''"
proof -
  let ?env = "\<lparr>clean_ok = True, plan_outcome = Inl ''connection refused'',
        file_outcome = (\<lambda>file_path context.
           if file_path = ''requirements.txt'' then Inl ''timed out'' else Inr ''flask''),
        write_ok = (\<lambda>file_path. True)\<rparr>"
  let ?plan = "[''app.py'', ''requirements.txt'']"
  have w: "\<forall>p \<in> set ?plan. write_ok ?env p"
    by simp
  have k: "(1::nat) < length ?plan"
    by simp
  have f: "file_outcome ?env (?plan ! 1)
      (existing_files_context (take 1 (fst (generate_files ?env ?plan [] [])))) = Inl ''timed out''"
    by simp
  from failed_completion_gives_placeholder [OF w k f] k show ?thesis
    by simp
qed

text \<open>
  Claim C2, as stated, fails. The planner falls back to the five baseline paths, the
  completion call fails for \<open>requirements.txt\<close>, and the run returns five records, the
  second one the placeholder: the count is not less than the length of the plan.
\<close>

theorem failed_completion_count_counterexample:
  "length (plan_project_structure (Inl ''connection refused'')) = 5 \<and>
   (case generate_project
           \<lparr>clean_ok = True, plan_outcome = Inl ''connection refused'',
            file_outcome = (\<lambda>file_path context.
               if file_path = ''requirements.txt'' then Inl ''timed out'' else Inr ''flask''),
            write_ok = (\<lambda>file_path. True)\<rparr> of
      Inr (files, printed) \<Rightarrow>
        map gf_path files =
          [''app.py'', ''requirements.txt'', ''templates/index.html'', ''static/css/style.css'',
           ''static/js/app.js''] \<and>
        gf_content (files ! 1) =
          ''# Error generating requirements.txt. Please try again.'' @ [CHR 0x0A] @ ''# timed out'' \<and>
        \<not> length files < 5
    | Inl failure \<Rightarrow> False)"
  by code_simp

text \<open>
  Claim C6. The content the generator keeps for a file is the content extraction returned,
  whatever the two advisory validators say: the validators occur in the generator only
  where a warning is printed. The paths of the returned records are the paths of the plan
  whose write succeeded, so no verdict removes a file; and when every write succeeds the
  record at position \<open>k\<close> holds the extracted content of the reply for that file.
\<close>

theorem validation_never_blocks:
  "fst (generate_file_content_with_context file_path (Inr raw)) = extract_pure_code_enhanced raw \<and>
   map gf_path (fst (generate_files env plan [] [])) = filter (write_ok env) plan \<and>
   ((\<forall>p \<in> set plan. write_ok env p) \<and> k < length plan \<and>
    file_outcome env (plan ! k)
      (existing_files_context (take k (fst (generate_files env plan [] [])))) = Inr raw \<longrightarrow>
    gf_content (fst (generate_files env plan [] []) ! k) = extract_pure_code_enhanced raw)"
proof (intro conjI impI)
  show c: "fst (generate_file_content_with_context file_path (Inr raw)) =
      extract_pure_code_enhanced raw" for file_path
    by (simp add: generate_file_content_with_context_def Let_def)
  show "map gf_path (fst (generate_files env plan [] [])) = filter (write_ok env) plan"
    by (simp add: generate_files_paths)
  assume a: "(\<forall>p \<in> set plan. write_ok env p) \<and> k < length plan \<and>
    file_outcome env (plan ! k)
      (existing_files_context (take k (fst (generate_files env plan [] [])))) = Inr raw"
  then have "gf_content (fst (generate_files env plan [] []) ! k) =
      fst (generate_file_content_with_context (plan ! k) (Inr raw))"
    using generate_files_contents_0 [of plan env k] by simp
  then show "gf_content (fst (generate_files env plan [] []) ! k) = extract_pure_code_enhanced raw"
    by (simp only: c)
qed

theorem validation_never_blocks_witness:
  "\<not> ia_is_valid_file_content_trusted (extract_pure_code_enhanced ''total = 1 + 2 + 3 + 4'') ''app.py'' \<and>
   \<not> pb_is_valid_generated_content_trusted (extract_pure_code_enhanced ''total = 1 + 2 + 3 + 4'') ''app.py'' \<and>
   list_all (\<lambda>file_path. True) [''app.py''] \<and> (0::nat) < length [''app.py''] \<and>
   gf_content (fst (generate_files
       \<lparr>clean_ok = True, plan_outcome = Inl ''connection refused'',
        file_outcome = (\<lambda>file_path context. Inr ''total = 1 + 2 + 3 + 4''),
        write_ok = (\<lambda>file_path. True)\<rparr> [''app.py''] [] []) ! 0) =
     extract_pure_code_enhanced ''total = 1 + 2 + 3 + 4''"
proof -
  let ?env = "\<lparr>clean_ok = True, plan_outcome = Inl ''connection refused'',
        file_outcome = (\<lambda>file_path context. Inr ''total = 1 + 2 + 3 + 4''),
        write_ok = (\<lambda>file_path. True)\<rparr>"
  have v1: "\<not> ia_is_valid_file_content_trusted
      (extract_pure_code_enhanced ''total = 1 + 2 + 3 + 4'') ''app.py''"
    by code_simp
  have v2: "\<not> pb_is_valid_generated_content_trusted
      (extract_pure_code_enhanced ''total = 1 + 2 + 3 + 4'') ''app.py''"
    by code_simp
  have h: "(\<forall>p \<in> set [''app.py'']. write_ok ?env p) \<and> (0::nat) < length [''app.py''] \<and>
    file_outcome ?env ([''app.py''] ! 0)
      (existing_files_context (take 0 (fst (generate_files ?env [''app.py''] [] [])))) =
    Inr ''total = 1 + 2 + 3 + 4''"
    by simp
  from validation_never_blocks [of "''app.py''" "''total = 1 + 2 + 3 + 4''" ?env "[''app.py'']" 0] h
  have "gf_content (fst (generate_files ?env [''app.py''] [] []) ! 0) =
      extract_pure_code_enhanced ''total = 1 + 2 + 3 + 4''"
    by blast
  with v1 v2 show ?thesis
    by simp
qed

subsection \<open>Storing the files of a run\<close>

lemma add_generated_file_files:
  "generated_files (add_generated_file project_data file_path content) =
     generated_files project_data @
       [\<lparr>fd_path = file_path,
         fd_content = (if length content > 500 then take 500 content @ ''...'' else content),
         fd_size = length content\<rparr>]"
  by (simp add: add_generated_file_def)

text \<open>
  Claim C3, as amended. After a run the entries stored in the project document are the
  entries stored before it followed by one entry for every record of the run, in order:
  the path, the content cut to a preview of 500 characters, and the size. A later run
  appends to the entries of an earlier run.
\<close>

theorem store_generated_files_appends:
  "generated_files (store_generated_files project_data files) =
     generated_files project_data @
       map (\<lambda>f. \<lparr>fd_path = gf_path f,
                  fd_content = (if length (gf_content f) > 500
                                then take 500 (gf_content f) @ ''...'' else gf_content f),
                  fd_size = length (gf_content f)\<rparr>) files"
  unfolding store_generated_files_def
  by (induction files arbitrary: project_data) (simp_all add: add_generated_file_files)


text \<open>
  Claim C3, as stated, fails. Two successive runs on a new project, each returning the five
  baseline files, leave ten entries in the document: the stored paths are not the paths
  of the later run.
\<close>

theorem later_run_replaces_counterexample:
  "(case generate_project
           \<lparr>clean_ok = True, plan_outcome = Inl ''connection refused'',
            file_outcome = (\<lambda>file_path context. Inr ''flask''),
            write_ok = (\<lambda>file_path. True)\<rparr> of
      Inr (files, printed) \<Rightarrow>
        length files = 5 \<and>
        length (generated_files (store_generated_files
                  (store_generated_files (create_project ''Todo App'') files) files)) = 10 \<and>
        map fd_path (generated_files (store_generated_files
                  (store_generated_files (create_project ''Todo App'') files) files)) \<noteq>
          map gf_path files
    | Inl failure \<Rightarrow> False)"
  by code_simp

subsection \<open>Conversation turns and generation\<close>

lemma route_message_should_generate:
  "should_generate (snd (route_message project_data user_msg reply)) = False"
  by (simp add: route_message_def Let_def)

lemma handle_user_message_no_calls:
  "CalledGenerateProject \<notin> set (snd (handle_user_message store env data)) \<and>
   CalledGetPreviewUrl \<notin> set (snd (handle_user_message store env data))"
  by (simp add: handle_user_message_def Let_def split: option.splits prod.splits)

lemma handle_new_project_no_generation:
  "CalledGenerateProject \<notin> set (snd (handle_new_project store env data))"
  by (simp add: handle_new_project_def Let_def)

lemma handle_get_preview_no_generation:
  "CalledGenerateProject \<notin> set (snd (handle_get_preview store env data))"
  by (simp add: handle_get_preview_def)

lemma handle_check_generation_status_no_generation:
  "CalledGenerateProject \<notin> set (snd (handle_check_generation_status store env data))"
  by (simp add: handle_check_generation_status_def split: option.splits)

lemma handle_generate_code_gate:
  assumes "CalledGenerateProject \<in> set (snd (handle_generate_code store env data))"
  shows "\<exists>project_id project_data. given_project_id data = Some project_id \<and>
           store project_id = Some project_data \<and> has_minimal_requirements project_data"
  using assms
  by (auto simp add: handle_generate_code_def Let_def can_generate_code_def
      split: option.splits if_splits)

lemma process_request_user_message:
  "req_type data = Some ''user_message'' \<Longrightarrow>
   process_request store env data = handle_user_message store env data"
  by (simp add: process_request_def)

lemma process_request_generation:
  assumes "CalledGenerateProject \<in> set (snd (process_request store env data))"
  shows "req_type data = Some ''generate_code'' \<and>
         CalledGenerateProject \<in> set (snd (handle_generate_code store env data))"
proof -
  define t where "t = (case req_type data of Some t \<Rightarrow> t | None \<Rightarrow> ''message'')"
  have pr: "process_request store env data =
     (if t = ''new_project'' then handle_new_project store env data
         else if t = ''user_message'' then handle_user_message store env data
         else if t = ''get_preview'' then handle_get_preview store env data
         else if t = ''check_generation_status''
         then handle_check_generation_status store env data
         else if t = ''generate_code'' then handle_generate_code store env data
         else if t = ''ping'' then (store, [Sent Pong])
         else (store, [Sent (ErrorMessage (UnknownMessageType t))]))"
    by (simp only: process_request_def Let_def t_def)
  from assms have gen: "t = ''generate_code''" and
      h: "CalledGenerateProject \<in> set (snd (handle_generate_code store env data))"
    unfolding pr
    using handle_user_message_no_calls [of store env data]
      handle_new_project_no_generation [of store env data]
      handle_get_preview_no_generation [of store env data]
      handle_check_generation_status_no_generation [of store env data]
    by (auto split: if_splits)
  have "''generate_code'' \<noteq> ''message''"
    by simp
  with gen have "req_type data = Some ''generate_code''"
    unfolding t_def by (cases "req_type data") auto
  with h show ?thesis
    by blast
qed

lemma process_message_turn_no_calls:
  assumes "is_conversation_turn message"
  shows "CalledGenerateProject \<notin> set (snd (process_message store env message)) \<and>
         CalledGetPreviewUrl \<notin> set (snd (process_message store env message))"
proof -
  from assms obtain data where m: "message = Some data" and t: "req_type data = Some ''user_message''"
    by (auto simp add: is_conversation_turn_def split: option.splits)
  show ?thesis
    unfolding m using handle_user_message_no_calls [of store env data]
    by (simp add: process_message_def process_request_user_message [OF t])
qed

lemma snd_session_Cons:
  "snd (session store ((env, message) # rest)) =
     snd (process_message store env message) @
     snd (session (fst (process_message store env message)) rest)"
  by (simp add: Let_def split: prod.splits)

lemma session_turns_no_calls:
  "list_all (\<lambda>(env, message). is_conversation_turn message) requests \<Longrightarrow>
   CalledGenerateProject \<notin> set (snd (session store requests)) \<and>
   CalledGetPreviewUrl \<notin> set (snd (session store requests))"
proof (induction requests arbitrary: store)
  case Nil
  then show ?case by simp
next
  case (Cons r requests)
  obtain env message where r: "r = (env, message)"
    by (cases r)
  from Cons.prems r have turn: "is_conversation_turn message"
    and rest: "list_all (\<lambda>(env, message). is_conversation_turn message) requests"
    by simp_all
  from process_message_turn_no_calls [OF turn, of store env]
    Cons.IH [OF rest, of "fst (process_message store env message)"]
  show ?case
    unfolding r snd_session_Cons by simp
qed

text \<open>
  Claim C9. Routing a message always returns \<open>should_generate = False\<close>. Handling a
  request of type \<open>user_message\<close> calls neither \<open>generate_project\<close> (structure planner,
  file generator, build of the preview) nor \<open>get_preview_url\<close>, and so does a session
  made of conversation turns only. A request whose handling calls \<open>generate_project\<close>
  is of type \<open>generate_code\<close>, for a stored project that passes the readiness gate.
\<close>

theorem conversation_never_generates:
  "should_generate (snd (route_message project_data user_msg reply)) = False \<and>
   (req_type data = Some ''user_message'' \<longrightarrow>
      CalledGenerateProject \<notin> set (snd (process_request store env data)) \<and>
      CalledGetPreviewUrl \<notin> set (snd (process_request store env data))) \<and>
   (list_all (\<lambda>(env, message). is_conversation_turn message) requests \<longrightarrow>
      CalledGenerateProject \<notin> set (snd (session store requests)) \<and>
      CalledGetPreviewUrl \<notin> set (snd (session store requests))) \<and>
   (CalledGenerateProject \<in> set (snd (process_request store env data)) \<longrightarrow>
      req_type data = Some ''generate_code'' \<and>
      (\<exists>project_id stored. given_project_id data = Some project_id \<and>
         store project_id = Some stored \<and> has_minimal_requirements stored))"
proof (intro conjI impI)
  show "should_generate (snd (route_message project_data user_msg reply)) = False"
    by (rule route_message_should_generate)
next
  assume t: "req_type data = Some ''user_message''"
  show "CalledGenerateProject \<notin> set (snd (process_request store env data))"
    and "CalledGetPreviewUrl \<notin> set (snd (process_request store env data))"
    unfolding process_request_user_message [OF t]
    using handle_user_message_no_calls by blast+
next
  assume "list_all (\<lambda>(env, message). is_conversation_turn message) requests"
  from session_turns_no_calls [OF this]
  show "CalledGenerateProject \<notin> set (snd (session store requests))"
    and "CalledGetPreviewUrl \<notin> set (snd (session store requests))"
    by blast+
next
  assume g: "CalledGenerateProject \<in> set (snd (process_request store env data))"
  from process_request_generation [OF g]
  show "req_type data = Some ''generate_code''"
    by blast
  from process_request_generation [OF g] handle_generate_code_gate
  show "\<exists>project_id stored. given_project_id data = Some project_id \<and>
         store project_id = Some stored \<and> has_minimal_requirements stored"
    by blast
qed


theorem conversation_never_generates_witness:
  "req_type \<lparr>req_type = Some ''user_message'', req_project_id = Some ''a1b2c3d4'',
             req_message = Some ''generate the code now'', req_project_name = None\<rparr> =
     Some ''user_message'' \<and>
   CalledGenerateProject \<notin> set (snd (process_request
     (Map.empty(''a1b2c3d4'' \<mapsto> create_project ''Todo App''))
     \<lparr>env_reply = ''A todo app with tasks, tags and due dates.'', new_project_id = ''e5f6a7b8'',
      generation = \<lparr>clean_ok = True, plan_outcome = Inl ''connection refused'',
                    file_outcome = (\<lambda>file_path context. Inr ''flask''),
                    write_ok = (\<lambda>file_path. True)\<rparr>,
      preview_url = ''http://localhost:3001''\<rparr>
     \<lparr>req_type = Some ''user_message'', req_project_id = Some ''a1b2c3d4'',
      req_message = Some ''generate the code now'', req_project_name = None\<rparr>)) \<and>
   CalledGenerateProject \<in> set (snd (process_request
     (Map.empty(''a1b2c3d4'' \<mapsto> \<lparr>pname = ''Todo App'',
         requirements =
           [(''requirements_evolver'',
             \<lparr>full_response = ''A todo app with tasks, tags and due dates.'',
              user_message = ''I want a todo app'', agent = ''requirements_evolver'',
              has_substance = True\<rparr>),
            (''ux_architect'',
             \<lparr>full_response = ''Users land on a board and open a task in one tap.'',
              user_message = ''the ux should be simple'', agent = ''ux_architect'',
              has_substance = True\<rparr>)],
         messages = [], generated_files = [], active_agent = ''ux_architect''\<rparr>))
     \<lparr>env_reply = [], new_project_id = ''e5f6a7b8'',
      generation = \<lparr>clean_ok = True, plan_outcome = Inl ''connection refused'',
                    file_outcome = (\<lambda>file_path context. Inr ''flask''),
                    write_ok = (\<lambda>file_path. True)\<rparr>,
      preview_url = ''http://localhost:3001''\<rparr>
     \<lparr>req_type = Some ''generate_code'', req_project_id = Some ''a1b2c3d4'',
      req_message = None, req_project_name = None\<rparr>)) \<and>
   req_type \<lparr>req_type = Some ''generate_code'', req_project_id = Some ''a1b2c3d4'',
      req_message = None, req_project_name = None\<rparr> = Some ''generate_code''"
proof -
  define gen where "gen = \<lparr>clean_ok = True, plan_outcome = Inl ''connection refused'',
                    file_outcome = (\<lambda>file_path context. Inr ''flask''),
                    write_ok = (\<lambda>file_path. True)\<rparr>"
  define env1 where "env1 = \<lparr>env_reply = ''A todo app with tasks, tags and due dates.'',
      new_project_id = ''e5f6a7b8'', generation = gen, preview_url = ''http://localhost:3001''\<rparr>"
  define env2 where "env2 = \<lparr>env_reply = [], new_project_id = ''e5f6a7b8'', generation = gen,
      preview_url = ''http://localhost:3001''\<rparr>"
  define chat where "chat = \<lparr>req_type = Some ''user_message'', req_project_id = Some ''a1b2c3d4'',
      req_message = Some ''generate the code now'', req_project_name = None\<rparr>"
  define button where "button = \<lparr>req_type = Some ''generate_code'',
      req_project_id = Some ''a1b2c3d4'', req_message = None, req_project_name = None\<rparr>"
  define store1 where "store1 = Map.empty(''a1b2c3d4'' \<mapsto> create_project ''Todo App'')"
  define store2 where "store2 = Map.empty(''a1b2c3d4'' \<mapsto>
      \<lparr>pname = ''Todo App'',
         requirements =
           [(''requirements_evolver'',
             \<lparr>full_response = ''A todo app with tasks, tags and due dates.'',
              user_message = ''I want a todo app'', agent = ''requirements_evolver'',
              has_substance = True\<rparr>),
            (''ux_architect'',
             \<lparr>full_response = ''Users land on a board and open a task in one tap.'',
              user_message = ''the ux should be simple'', agent = ''ux_architect'',
              has_substance = True\<rparr>)],
         messages = [], generated_files = [], active_agent = ''ux_architect''\<rparr>)"
  have t: "req_type chat = Some ''user_message''"
    by (simp add: chat_def)
  have b: "req_type button = Some ''generate_code''"
    by (simp add: button_def)
  have g: "CalledGenerateProject \<in> set (snd (process_request store2 env2 button))"
    unfolding store2_def env2_def gen_def button_def by code_simp
  from conversation_never_generates [of "create_project ''Todo App''" "[]" "[]" chat store1 env1 "[]"] t
  have n: "CalledGenerateProject \<notin> set (snd (process_request store1 env1 chat))"
    by blast
  from t n g b show ?thesis
    unfolding store1_def store2_def env1_def env2_def gen_def chat_def button_def
    by (intro conjI)
qed

end
